theory Spec2Isabelle
  imports Complex_Main "HOL-Library.Multiset"
begin

section \<open>The geo-scoring engine of evac-proto\<close>

text \<open>
  A shallow embedding of \<^verbatim>\<open>mcp-servers/safety/src/lib/poi-index.ts\<close> (the point index,
  the spatial query and the strict scoring formula that the MCP server and the web
  server import) and of the older \<^verbatim>\<open>src/lib/score.ts\<close>.

  Numbers. A JavaScript number is an IEEE double. The model keeps the three special
  values the code can produce and test for (\<open>NaN\<close>, \<open>+Infinity\<close>, \<open>-Infinity\<close>) and
  idealises every finite double as a real: rounding, overflow of finite arithmetic and
  the sign of zero are not modelled (\<open>-0\<close> is identified with \<open>0\<close>, so a division
  by zero takes the sign of its numerator).
\<close>

subsection \<open>JavaScript numbers\<close>

datatype jsnum = Fin real | PInf | NInf | NaN

text \<open>\<^verbatim>\<open>Number.isFinite(x)\<close> on a value that is a number.\<close>

fun isFinite :: "jsnum \<Rightarrow> bool" where
  "isFinite (Fin a) = True"
| "isFinite PInf = False"
| "isFinite NInf = False"
| "isFinite NaN = False"

fun jneg :: "jsnum \<Rightarrow> jsnum" where
  "jneg (Fin a) = Fin (- a)"
| "jneg PInf = NInf"
| "jneg NInf = PInf"
| "jneg NaN = NaN"

text \<open>\<^verbatim>\<open>x + y\<close>\<close>

fun jadd :: "jsnum \<Rightarrow> jsnum \<Rightarrow> jsnum" where
  "jadd (Fin a) (Fin b) = Fin (a + b)"
| "jadd (Fin a) PInf = PInf"
| "jadd (Fin a) NInf = NInf"
| "jadd PInf (Fin b) = PInf"
| "jadd PInf PInf = PInf"
| "jadd PInf NInf = NaN"
| "jadd NInf (Fin b) = NInf"
| "jadd NInf PInf = NaN"
| "jadd NInf NInf = NInf"
| "jadd NaN y = NaN"
| "jadd x NaN = NaN"

text \<open>\<^verbatim>\<open>x - y\<close>\<close>

definition jsub :: "jsnum \<Rightarrow> jsnum \<Rightarrow> jsnum" where
  "jsub x y = jadd x (jneg y)"

text \<open>The sign rule of an infinite product or quotient.\<close>

definition signedInf :: "bool \<Rightarrow> jsnum" where
  "signedInf positive = (if positive then PInf else NInf)"

text \<open>\<^verbatim>\<open>x * y\<close>\<close>

fun jmul :: "jsnum \<Rightarrow> jsnum \<Rightarrow> jsnum" where
  "jmul (Fin a) (Fin b) = Fin (a * b)"
| "jmul (Fin a) PInf = (if a = 0 then NaN else signedInf (0 < a))"
| "jmul (Fin a) NInf = (if a = 0 then NaN else signedInf (a < 0))"
| "jmul PInf (Fin b) = (if b = 0 then NaN else signedInf (0 < b))"
| "jmul NInf (Fin b) = (if b = 0 then NaN else signedInf (b < 0))"
| "jmul PInf PInf = PInf"
| "jmul PInf NInf = NInf"
| "jmul NInf PInf = NInf"
| "jmul NInf NInf = PInf"
| "jmul NaN y = NaN"
| "jmul x NaN = NaN"

text \<open>\<^verbatim>\<open>x / y\<close>, the zero divisor read as \<open>+0\<close>.\<close>

fun jdiv :: "jsnum \<Rightarrow> jsnum \<Rightarrow> jsnum" where
  "jdiv (Fin a) (Fin b) =
     (if b = 0 then (if a = 0 then NaN else signedInf (0 < a)) else Fin (a / b))"
| "jdiv (Fin a) PInf = Fin 0"
| "jdiv (Fin a) NInf = Fin 0"
| "jdiv PInf (Fin b) = signedInf (0 \<le> b)"
| "jdiv NInf (Fin b) = signedInf (b < 0)"
| "jdiv PInf PInf = NaN"
| "jdiv PInf NInf = NaN"
| "jdiv NInf PInf = NaN"
| "jdiv NInf NInf = NaN"
| "jdiv NaN y = NaN"
| "jdiv x NaN = NaN"

text \<open>\<^verbatim>\<open>x <= y\<close> and \<^verbatim>\<open>x < y\<close>: false as soon as one side is \<open>NaN\<close>.\<close>

fun jle :: "jsnum \<Rightarrow> jsnum \<Rightarrow> bool" where
  "jle (Fin a) (Fin b) = (a \<le> b)"
| "jle (Fin a) PInf = True"
| "jle (Fin a) NInf = False"
| "jle PInf (Fin b) = False"
| "jle PInf PInf = True"
| "jle PInf NInf = False"
| "jle NInf (Fin b) = True"
| "jle NInf PInf = True"
| "jle NInf NInf = True"
| "jle NaN y = False"
| "jle x NaN = False"

fun jlt :: "jsnum \<Rightarrow> jsnum \<Rightarrow> bool" where
  "jlt (Fin a) (Fin b) = (a < b)"
| "jlt (Fin a) PInf = True"
| "jlt (Fin a) NInf = False"
| "jlt PInf (Fin b) = False"
| "jlt PInf PInf = False"
| "jlt PInf NInf = False"
| "jlt NInf (Fin b) = True"
| "jlt NInf PInf = True"
| "jlt NInf NInf = False"
| "jlt NaN y = False"
| "jlt x NaN = False"

text \<open>\<^verbatim>\<open>Math.min(x, y)\<close> and \<^verbatim>\<open>Math.max(x, y)\<close>: \<open>NaN\<close> if either argument is.\<close>

fun jmin :: "jsnum \<Rightarrow> jsnum \<Rightarrow> jsnum" where
  "jmin NaN y = NaN"
| "jmin x NaN = NaN"
| "jmin x y = (if jle x y then x else y)"

fun jmax :: "jsnum \<Rightarrow> jsnum \<Rightarrow> jsnum" where
  "jmax NaN y = NaN"
| "jmax x NaN = NaN"
| "jmax x y = (if jle x y then y else x)"

text \<open>\<^verbatim>\<open>Math.sin\<close>, \<^verbatim>\<open>Math.cos\<close>: \<open>NaN\<close> at an infinite or \<open>NaN\<close> argument.\<close>

fun jsin :: "jsnum \<Rightarrow> jsnum" where
  "jsin (Fin a) = Fin (sin a)"
| "jsin x = NaN"

fun jcos :: "jsnum \<Rightarrow> jsnum" where
  "jcos (Fin a) = Fin (cos a)"
| "jcos x = NaN"

text \<open>\<^verbatim>\<open>Math.sqrt\<close>: \<open>NaN\<close> below zero.\<close>

fun jsqrt :: "jsnum \<Rightarrow> jsnum" where
  "jsqrt (Fin a) = (if a < 0 then NaN else Fin (sqrt a))"
| "jsqrt PInf = PInf"
| "jsqrt NInf = NaN"
| "jsqrt NaN = NaN"

text \<open>\<^verbatim>\<open>Math.asin\<close>: \<open>NaN\<close> outside \<open>[-1, 1]\<close> (the domain error).\<close>

fun jasin :: "jsnum \<Rightarrow> jsnum" where
  "jasin (Fin a) = (if - 1 \<le> a \<and> a \<le> 1 then Fin (arcsin a) else NaN)"
| "jasin x = NaN"

text \<open>\<^verbatim>\<open>x ** 2\<close>\<close>

fun jsquare :: "jsnum \<Rightarrow> jsnum" where
  "jsquare (Fin a) = Fin (a * a)"
| "jsquare PInf = PInf"
| "jsquare NInf = PInf"
| "jsquare NaN = NaN"

text \<open>
  \<^verbatim>\<open>Math.pow(x, y)\<close> for a finite exponent \<open>y\<close> that is positive and not an integer
  (the code's only exponent is 1.3): \<open>NaN\<close> at a negative base.
\<close>

fun jpow :: "jsnum \<Rightarrow> real \<Rightarrow> jsnum" where
  "jpow (Fin a) y = (if a < 0 then NaN else Fin (a powr y))"
| "jpow PInf y = PInf"
| "jpow NInf y = PInf"
| "jpow NaN y = NaN"

subsection \<open>Geo helpers\<close>

definition R_EARTH :: jsnum where
  "R_EARTH = Fin 6371000"

definition toRad :: "jsnum \<Rightarrow> jsnum" where
  "toRad d = jdiv (jmul d (Fin pi)) (Fin 180)"

definition haversineA :: "jsnum \<Rightarrow> jsnum \<Rightarrow> jsnum \<Rightarrow> jsnum \<Rightarrow> jsnum" where
  "haversineA lon1 lat1 lon2 lat2 =
     (let phi1 = toRad lat1; phi2 = toRad lat2;
          dphi = toRad (jsub lat2 lat1);
          dlam = toRad (jsub lon2 lon1)
      in jadd (jsquare (jsin (jdiv dphi (Fin 2))))
              (jmul (jmul (jcos phi1) (jcos phi2)) (jsquare (jsin (jdiv dlam (Fin 2))))))"

definition haversineMeters :: "jsnum \<Rightarrow> jsnum \<Rightarrow> jsnum \<Rightarrow> jsnum \<Rightarrow> jsnum" where
  "haversineMeters lon1 lat1 lon2 lat2 =
     jmul (jmul (Fin 2) R_EARTH)
          (jasin (jmin (Fin 1) (jsqrt (haversineA lon1 lat1 lon2 lat2))))"

text \<open>
  What the idealisation keeps of \<^verbatim>\<open>haversineMeters\<close>. On doubles as in the model the
  result is \<open>NaN\<close> or a finite number that is not negative, and it is \<open>NaN\<close> for an
  origin that is not finite. For latitudes in \<open>[-90, 90]\<close> both cosines are positive and
  every term of \<open>a\<close> is non-negative after rounding too, so the code returns a finite
  distance, the model's up to rounding. Outside that range the two can differ: for a
  finite latitude out of range the exact \<open>a\<close> can be 0 where the rounded one is
  negative (from \<open>(0, 80)\<close> to \<open>(180, 100)\<close>), and a degree value near the largest
  double overflows in \<^verbatim>\<open>toRad\<close>; there the code returns \<open>NaN\<close> and the model a finite
  distance. In exact arithmetic \<open>a\<close> never exceeds 1, so the clamp \<^verbatim>\<open>Math.min(1, ...)\<close>
  changes nothing in the model; on doubles it does. The statements below that need a
  finite distance are about latitudes in range.
\<close>

definition clamp01 :: "jsnum \<Rightarrow> jsnum" where
  "clamp01 x = jmax (Fin 0) (jmin (Fin 1) x)"

subsection \<open>Types\<close>

text \<open>
  \<^verbatim>\<open>Poi\<close> and \<^verbatim>\<open>PoiNear = Poi & { distance_m; kind }\<close>. Optional fields are options
  (\<open>None\<close> is \<^verbatim>\<open>null\<close>).
\<close>

datatype Kind = Shelter | School | Health

text \<open>A JavaScript string is a sequence of UTF-16 code units; \<open>str\<close> writes one from an
  ASCII literal.\<close>

type_synonym jsstring = "nat list"

definition str :: "string \<Rightarrow> jsstring" where
  "str s = map of_char s"

record Poi =
  name :: jsstring
  lon :: jsnum
  lat :: jsnum
  primary :: "jsstring option"
  tags :: "jsstring list option"

record PoiNear = Poi +
  distance_m :: jsnum
  kind :: Kind

text \<open>\<^verbatim>\<open>NearbyResult\<close>; its \<^verbatim>\<open>params\<close> object is the record \<open>QueryParams\<close>.\<close>

record QueryParams =
  q_lon :: jsnum
  q_lat :: jsnum
  q_radiusMeters :: jsnum
  q_topN :: jsnum

record NearbyResult =
  shelters :: "PoiNear list"
  schools :: "PoiNear list"
  healths :: "PoiNear list"
  allNear :: "PoiNear list"
  params :: QueryParams

text \<open>
  \<^verbatim>\<open>ScoreParams\<close>: the optional \<^verbatim>\<open>radiusMeters\<close> and \<^verbatim>\<open>topN\<close> are options.
  \<^verbatim>\<open>includeDiagnostics\<close> only adds the \<^verbatim>\<open>_diagnostics\<close> object (file names, layer
  sizes, three samples per layer); it and the \<^verbatim>\<open>explain\<close> string are left out of the
  model.
\<close>

record ScoreParams =
  sp_lon :: jsnum
  sp_lat :: jsnum
  sp_radiusMeters :: "jsnum option"
  sp_topN :: "jsnum option"

record Weights =
  w_shelter :: real
  w_school :: real
  w_health :: real

text \<open>One entry \<^verbatim>\<open>{ count, nearest }\<close> of a \<^verbatim>\<open>ScoreResult\<close>.\<close>

record CatSummary =
  cat_count :: nat
  nearest :: "PoiNear option"

record ResultParams =
  rp_lon :: jsnum
  rp_lat :: jsnum
  rp_radiusMeters :: jsnum
  rp_weights :: Weights
  rp_topN :: jsnum

record ScoreResult =
  r_shelters :: CatSummary
  r_schools :: CatSummary
  r_healths :: CatSummary
  score :: jsnum
  r_params :: ResultParams

subsection \<open>Config\<close>

definition WEIGHTS :: Weights where
  "WEIGHTS = \<lparr>w_shelter = 0.6, w_school = 0.25, w_health = 0.15\<rparr>"

definition COUNT_SAT_K :: real where
  "COUNT_SAT_K = 4"

definition MIX_COUNTS :: real where
  "MIX_COUNTS = 0.8"

definition MIX_PROX :: real where
  "MIX_PROX = 1 - MIX_COUNTS"

subsection \<open>Data loading and parsing\<close>



















record Layers =
  shelter :: "Poi list"
  school :: "Poi list"
  health :: "Poi list"



subsection \<open>Core queries\<close>

definition withDistances :: "Kind \<Rightarrow> Poi list \<Rightarrow> jsnum \<Rightarrow> jsnum \<Rightarrow> PoiNear list" where
  "withDistances k arr lon0 lat0 =
     map (\<lambda>p. \<lparr>name = name p, lon = lon p, lat = lat p, primary = primary p, tags = tags p,
               distance_m = haversineMeters lon0 lat0 (lon p) (lat p), kind = k\<rparr>) arr"

definition withinRadius :: "PoiNear list \<Rightarrow> jsnum \<Rightarrow> PoiNear list" where
  "withinRadius sortedByDistance radiusMeters =
     filter (\<lambda>p. jle (distance_m p) radiusMeters) sortedByDistance"

text \<open>
  \<^verbatim>\<open>.sort((a, b) => a.distance_m - b.distance_m)\<close>. The sort of an array is stable;
  the model is the stable insertion sort under the comparator, which puts \<open>b\<close> before
  \<open>a\<close> only when the difference is positive (a \<open>NaN\<close> difference counts as equal).
  When all distances are numbers, or all are \<open>NaN\<close>, the comparator is consistent and
  the result of a stable sort is determined: it is the model's. When some distances are
  \<open>NaN\<close> and others are not, the comparator is not consistent and the order the engine
  produces is implementation-defined; the model then gives one order of the same
  elements, which need not be the engine's.
\<close>

definition comesAfter :: "PoiNear \<Rightarrow> PoiNear \<Rightarrow> bool" where
  "comesAfter a b = jlt (Fin 0) (jsub (distance_m a) (distance_m b))"

fun insertByDistance :: "PoiNear \<Rightarrow> PoiNear list \<Rightarrow> PoiNear list" where
  "insertByDistance a [] = [a]"
| "insertByDistance a (b # rest) =
     (if comesAfter a b then b # insertByDistance a rest else a # b # rest)"

definition sortByDistance :: "PoiNear list \<Rightarrow> PoiNear list" where
  "sortByDistance xs = foldr insertByDistance xs []"

text \<open>
  \<^verbatim>\<open>xs.slice(0, end)\<close>: \<open>end\<close> is truncated to an integer (\<open>NaN\<close> to 0), and a negative
  one counts from the end of the array.
\<close>

definition truncInt :: "real \<Rightarrow> int" where
  "truncInt e = (if 0 \<le> e then \<lfloor>e\<rfloor> else \<lceil>e\<rceil>)"

fun slice0 :: "'a list \<Rightarrow> jsnum \<Rightarrow> 'a list" where
  "slice0 xs (Fin e) =
     (if truncInt e < 0 then take (nat (int (length xs) + truncInt e)) xs
      else take (nat (truncInt e)) xs)"
| "slice0 xs PInf = xs"
| "slice0 xs NInf = []"
| "slice0 xs NaN = []"

text \<open>The three lines of \<^verbatim>\<open>nearbyPois\<close> that build one category's list.\<close>

definition nearCategory :: "Kind \<Rightarrow> Poi list \<Rightarrow> jsnum \<Rightarrow> jsnum \<Rightarrow> jsnum \<Rightarrow> jsnum \<Rightarrow> PoiNear list" where
  "nearCategory k arr lon0 lat0 radiusMeters topN =
     slice0 (withinRadius (sortByDistance (withDistances k arr lon0 lat0)) radiusMeters) topN"

definition nearbyPois :: "Layers \<Rightarrow> jsnum \<Rightarrow> jsnum \<Rightarrow> jsnum \<Rightarrow> jsnum \<Rightarrow> NearbyResult" where
  "nearbyPois L lon0 lat0 radiusMeters topN =
     (let shelters = nearCategory Shelter (shelter L) lon0 lat0 radiusMeters topN;
          schools = nearCategory School (school L) lon0 lat0 radiusMeters topN;
          healths = nearCategory Health (health L) lon0 lat0 radiusMeters topN;
          allNear = sortByDistance (shelters @ schools @ healths)
      in \<lparr>shelters = shelters, schools = schools, healths = healths, allNear = allNear,
          params = \<lparr>q_lon = lon0, q_lat = lat0, q_radiusMeters = radiusMeters, q_topN = topN\<rparr>\<rparr>)"

subsection \<open>Scoring\<close>

text \<open>\<^verbatim>\<open>{ count: list.length, nearest: list[0] ?? null }\<close>\<close>

definition summary :: "PoiNear list \<Rightarrow> CatSummary" where
  "summary xs = \<lparr>cat_count = length xs, nearest = (case xs of [] \<Rightarrow> None | p # rest \<Rightarrow> Some p)\<rparr>"

text \<open>\<^verbatim>\<open>c.nearest?.distance_m ?? Infinity\<close>\<close>

definition nearestDistance :: "CatSummary \<Rightarrow> jsnum" where
  "nearestDistance c = (case nearest c of None \<Rightarrow> PInf | Some p \<Rightarrow> distance_m p)"

text \<open>\<^verbatim>\<open>n / (n + COUNT_SAT_K)\<close>\<close>

definition countNorm :: "nat \<Rightarrow> jsnum" where
  "countNorm n = jdiv (Fin (real n)) (jadd (Fin (real n)) (Fin COUNT_SAT_K))"

text \<open>The closure \<^verbatim>\<open>prox\<close>, with the \<^verbatim>\<open>radiusMeters\<close> it captures as first argument.\<close>

definition prox :: "jsnum \<Rightarrow> jsnum \<Rightarrow> jsnum" where
  "prox radiusMeters d =
     (if \<not> isFinite d then Fin 0
      else let raw = clamp01 (jsub (Fin 1) (jdiv d radiusMeters)) in jpow raw 1.3)"

text \<open>\<^verbatim>\<open>weight * (MIX_COUNTS * countNorm + MIX_PROX * prox(nearest))\<close>, the expression the
  code writes once per category.\<close>

definition categoryScore :: "real \<Rightarrow> jsnum \<Rightarrow> nat \<Rightarrow> jsnum \<Rightarrow> jsnum" where
  "categoryScore w radiusMeters n d =
     jmul (Fin w) (jadd (jmul (Fin MIX_COUNTS) (countNorm n)) (jmul (Fin MIX_PROX) (prox radiusMeters d)))"

definition scorePoint :: "Layers \<Rightarrow> ScoreParams \<Rightarrow> ScoreResult" where
  "scorePoint L ps =
     (let lon0 = sp_lon ps;
          lat0 = sp_lat ps;
          radiusMeters = (case sp_radiusMeters ps of None \<Rightarrow> Fin 1500 | Some r \<Rightarrow> r);
          topN = (case sp_topN ps of None \<Rightarrow> Fin 25 | Some n \<Rightarrow> n);
          nearby = nearbyPois L lon0 lat0 radiusMeters topN;
          cs = summary (shelters nearby);
          cc = summary (schools nearby);
          ch = summary (healths nearby);
          sScore = categoryScore (w_shelter WEIGHTS) radiusMeters (cat_count cs) (nearestDistance cs);
          cScore = categoryScore (w_school WEIGHTS) radiusMeters (cat_count cc) (nearestDistance cc);
          hScore = categoryScore (w_health WEIGHTS) radiusMeters (cat_count ch) (nearestDistance ch)
      in \<lparr>r_shelters = cs, r_schools = cc, r_healths = ch,
          score = clamp01 (jadd (jadd sScore cScore) hScore),
          r_params = \<lparr>rp_lon = lon0, rp_lat = lat0, rp_radiusMeters = radiusMeters,
                      rp_weights = WEIGHTS, rp_topN = topN\<rparr>\<rparr>)"

subsection \<open>The older engine, \<^verbatim>\<open>src/lib/score.ts\<close>\<close>

text \<open>
  No module of the repository imports this file. Its catalog (\<^verbatim>\<open>readPoints\<close>, one
  cached list per layer) is the argument \<open>L\<close>; the \<^verbatim>\<open>explanation\<close> string is left out.
  Its \<^verbatim>\<open>haversineMeters\<close> is the one above without the clamp.
\<close>

definition haversineMeters_score_ts :: "jsnum \<Rightarrow> jsnum \<Rightarrow> jsnum \<Rightarrow> jsnum \<Rightarrow> jsnum" where
  "haversineMeters_score_ts lon1 lat1 lon2 lat2 =
     (let dLat = toRad (jsub lat2 lat1);
          dLon = toRad (jsub lon2 lon1);
          a = jadd (jsquare (jsin (jdiv dLat (Fin 2))))
                   (jmul (jmul (jcos (toRad lat1)) (jcos (toRad lat2)))
                         (jsquare (jsin (jdiv dLon (Fin 2)))))
      in jmul (jmul (Fin 2) (Fin 6371000)) (jasin (jsqrt a)))"

text \<open>\<^verbatim>\<open>Math.round\<close>\<close>

fun jround :: "jsnum \<Rightarrow> jsnum" where
  "jround (Fin a) = Fin (of_int \<lfloor>a + 1 / 2\<rfloor>)"
| "jround x = x"

text \<open>\<^verbatim>\<open>Number(x.toFixed(4))\<close>: the magnitude rounded to four decimals, a tie upwards.\<close>

fun toFixed4 :: "jsnum \<Rightarrow> jsnum" where
  "toFixed4 (Fin a) = Fin (sgn a * of_int \<lfloor>\<bar>a\<bar> * 10000 + 1 / 2\<rfloor> / 10000)"
| "toFixed4 x = x"

record NearestHit =
  poi :: Poi
  hit_distance_m :: jsnum

fun nearestLoop :: "jsnum \<Rightarrow> jsnum \<Rightarrow> Poi \<Rightarrow> jsnum \<Rightarrow> Poi list \<Rightarrow> Poi \<times> jsnum" where
  "nearestLoop lon0 lat0 best bestD [] = (best, bestD)"
| "nearestLoop lon0 lat0 best bestD (p # rest) =
     (let d = haversineMeters_score_ts lon0 lat0 (lon p) (lat p)
      in if jlt d bestD then nearestLoop lon0 lat0 p d rest
         else nearestLoop lon0 lat0 best bestD rest)"

definition nearest_score_ts :: "Poi list \<Rightarrow> jsnum \<Rightarrow> jsnum \<Rightarrow> NearestHit option" where
  "nearest_score_ts points lon0 lat0 =
     (case points of
        [] \<Rightarrow> None
      | p0 # rest \<Rightarrow>
          let (best, bestD) =
                nearestLoop lon0 lat0 p0 (haversineMeters_score_ts lon0 lat0 (lon p0) (lat p0)) rest
          in Some \<lparr>poi = best, hit_distance_m = jround bestD\<rparr>)"

definition within_score_ts :: "Poi list \<Rightarrow> jsnum \<Rightarrow> jsnum \<Rightarrow> jsnum \<Rightarrow> Poi list" where
  "within_score_ts points lon0 lat0 radius =
     filter (\<lambda>p. jle (haversineMeters_score_ts lon0 lat0 (lon p) (lat p)) radius) points"

definition avail :: "nat \<Rightarrow> jsnum option \<Rightarrow> real \<Rightarrow> jsnum" where
  "avail n nearest_m softCap =
     (if 0 < n then jmin (Fin 1) (jdiv (Fin (real n)) (Fin softCap))
      else case nearest_m of
             None \<Rightarrow> Fin 0
           | Some m \<Rightarrow> jdiv (Fin 1) (jadd (Fin 1) (jdiv m (Fin 2000))))"

record LayerTriple =
  t_shelters :: real
  t_schools :: real
  t_healths :: real

record LayerInfo =
  li_count :: nat
  li_nearest_m :: "jsnum option"
  li_nearest :: "(jsstring \<times> jsnum \<times> jsnum) option"

record ScoreResult_score_ts =
  ts_params :: "jsnum \<times> jsnum \<times> jsnum"
  ts_weights :: LayerTriple
  ts_softCaps :: LayerTriple
  ts_shelters :: LayerInfo
  ts_schools :: LayerInfo
  ts_healths :: LayerInfo
  ts_score :: jsnum

definition layerInfo :: "Poi list \<Rightarrow> NearestHit option \<Rightarrow> LayerInfo" where
  "layerInfo near n =
     \<lparr>li_count = length near,
      li_nearest_m = map_option hit_distance_m n,
      li_nearest = map_option (\<lambda>h. (name (poi h), lon (poi h), lat (poi h))) n\<rparr>"

definition scorePoint_score_ts :: "Layers \<Rightarrow> jsnum \<Rightarrow> jsnum \<Rightarrow> jsnum option \<Rightarrow> ScoreResult_score_ts" where
  "scorePoint_score_ts L lon0 lat0 radiusOpt =
     (let radiusMeters = (case radiusOpt of None \<Rightarrow> Fin 1500 | Some r \<Rightarrow> r);
          w = \<lparr>t_shelters = 0.5, t_schools = 0.3, t_healths = 0.2\<rparr>;
          cap = \<lparr>t_shelters = 1, t_schools = 3, t_healths = 2\<rparr>;
          nearShelters = within_score_ts (shelter L) lon0 lat0 radiusMeters;
          nearSchools = within_score_ts (school L) lon0 lat0 radiusMeters;
          nearHealths = within_score_ts (health L) lon0 lat0 radiusMeters;
          ns = nearest_score_ts (shelter L) lon0 lat0;
          nc = nearest_score_ts (school L) lon0 lat0;
          nh = nearest_score_ts (health L) lon0 lat0;
          aShelter = avail (length nearShelters) (map_option hit_distance_m ns) (t_shelters cap);
          aSchool = avail (length nearSchools) (map_option hit_distance_m nc) (t_schools cap);
          aHealth = avail (length nearHealths) (map_option hit_distance_m nh) (t_healths cap);
          total = toFixed4 (jadd (jadd (jmul (Fin (t_shelters w)) aShelter)
                                       (jmul (Fin (t_schools w)) aSchool))
                                 (jmul (Fin (t_healths w)) aHealth))
      in \<lparr>ts_params = (lon0, lat0, radiusMeters), ts_weights = w, ts_softCaps = cap,
          ts_shelters = layerInfo nearShelters ns,
          ts_schools = layerInfo nearSchools nc,
          ts_healths = layerInfo nearHealths nh,
          ts_score = total\<rparr>)"

subsection \<open>Notions used to state the properties\<close>

text \<open>The value \<open>a\<close> of \<^verbatim>\<open>haversineMeters\<close> on finite arguments, as a real.\<close>

definition havA :: "real \<Rightarrow> real \<Rightarrow> real \<Rightarrow> real \<Rightarrow> real" where
  "havA lon1 lat1 lon2 lat2 =
     (sin ((lat2 - lat1) * pi / 180 / 2))\<^sup>2
     + cos (lat1 * pi / 180) * cos (lat2 * pi / 180) * (sin ((lon2 - lon1) * pi / 180 / 2))\<^sup>2"

text \<open>A catalog point lies within the radius of the origin.\<close>

definition inRadius :: "jsnum \<Rightarrow> jsnum \<Rightarrow> jsnum \<Rightarrow> Poi \<Rightarrow> bool" where
  "inRadius lon0 lat0 radiusMeters p =
     jle (haversineMeters lon0 lat0 (lon p) (lat p)) radiusMeters"

text \<open>The radius and the cap \<^verbatim>\<open>scorePoint\<close> works with: the defaults are 1500 and 25.\<close>

definition radiusOf :: "ScoreParams \<Rightarrow> jsnum" where
  "radiusOf ps = (case sp_radiusMeters ps of None \<Rightarrow> Fin 1500 | Some r \<Rightarrow> r)"

definition topNOf :: "ScoreParams \<Rightarrow> jsnum" where
  "topNOf ps = (case sp_topN ps of None \<Rightarrow> Fin 25 | Some n \<Rightarrow> n)"

text \<open>The invariant the specification gives a point, and the part of it the loader checks.\<close>

definition finiteCoords :: "'a Poi_scheme \<Rightarrow> bool" where
  "finiteCoords p = (isFinite (lon p) \<and> isFinite (lat p))"

definition inRange :: "'a Poi_scheme \<Rightarrow> bool" where
  "inRange p = (jle (Fin (- 180)) (lon p) \<and> jle (lon p) (Fin 180)
                \<and> jle (Fin (- 90)) (lat p) \<and> jle (lat p) (Fin 90))"

text \<open>A query the specification calls valid: a finite origin in range and a radius that is
  not negative.\<close>

definition validQuery :: "jsnum \<Rightarrow> jsnum \<Rightarrow> jsnum \<Rightarrow> bool" where
  "validQuery lon0 lat0 radiusMeters =
     (jle (Fin (- 180)) lon0 \<and> jle lon0 (Fin 180)
      \<and> jle (Fin (- 90)) lat0 \<and> jle lat0 (Fin 90)
      \<and> \<not> jlt radiusMeters (Fin 0))"


text \<open>The distance from the origin to the nearest point of a whole category,
  \<open>Infinity\<close> when the category is empty.\<close>

fun leastDistance :: "jsnum list \<Rightarrow> jsnum" where
  "leastDistance [] = PInf"
| "leastDistance (d # ds) = jmin d (leastDistance ds)"

definition nearestInCatalog :: "Poi list \<Rightarrow> jsnum \<Rightarrow> jsnum \<Rightarrow> jsnum" where
  "nearestInCatalog arr lon0 lat0 =
     leastDistance (map (\<lambda>p. haversineMeters lon0 lat0 (lon p) (lat p)) arr)"

text \<open>The value of \<^verbatim>\<open>prox\<close> on a finite distance and a finite radius other than 0.\<close>

definition proxR :: "real \<Rightarrow> real \<Rightarrow> real" where
  "proxR r d = (max 0 (min 1 (1 - d / r))) powr 1.3"



text \<open>Sample data: a point and a GeoJSON point feature with given name and coordinates,
  and three small catalogs.\<close>

definition poiAt :: "string \<Rightarrow> real \<Rightarrow> real \<Rightarrow> Poi" where
  "poiAt nm x y = \<lparr>name = str nm, lon = Fin x, lat = Fin y, primary = None, tags = None\<rparr>"



definition shelterAtOrigin :: Layers where
  "shelterAtOrigin = \<lparr>shelter = [poiAt ''S'' 0 0], school = [], health = []\<rparr>"

definition twoShelters :: Layers where
  "twoShelters = \<lparr>shelter = [poiAt ''A'' 0 0, poiAt ''B'' 0 0], school = [], health = []\<rparr>"

definition threeShelters :: Layers where
  "threeShelters =
     \<lparr>shelter = [poiAt ''A'' 0 0, poiAt ''B'' 0 0, poiAt ''C'' 0 0], school = [], health = []\<rparr>"

definition farShelter :: Layers where
  "farShelter = \<lparr>shelter = [poiAt ''F'' 180 0], school = [], health = []\<rparr>"

section \<open>Geo math\<close>

lemma haversineA_Fin:
  "haversineA (Fin lon1) (Fin lat1) (Fin lon2) (Fin lat2) = Fin (havA lon1 lat1 lon2 lat2)"
  by (simp add: haversineA_def havA_def toRad_def jsub_def power2_eq_square)

lemma cos_cos_ge:
  fixes x y :: real
  shows "- (sin ((y - x) / 2))\<^sup>2 \<le> cos x * cos y"
proof -
  define S where "S = (sin ((y - x) / 2))\<^sup>2"
  define P where "P = cos x * cos y"
  define Q where "Q = cos (x + y)"
  have a: "cos x * cos y = (cos (x - y) + cos (x + y)) / 2"
    by (simp add: cos_add cos_diff)
  have "cos (2 * ((y - x) / 2)) = 1 - 2 * (sin ((y - x) / 2))\<^sup>2"
    by (rule cos_double_sin)
  moreover have "2 * ((y - x) / 2) = y - x" by simp
  ultimately have b: "cos (y - x) = 1 - 2 * (sin ((y - x) / 2))\<^sup>2"
    by (simp only:)
  have c: "cos (x - y) = cos (y - x)"
    using cos_minus [of "y - x"] by simp
  have "P = ((1 - 2 * S) + Q) / 2"
    using a b c unfolding S_def P_def Q_def by simp
  moreover have "- 1 \<le> Q" unfolding Q_def by simp
  ultimately have "- S \<le> P" by (simp add: field_simps)
  then show ?thesis unfolding S_def P_def .
qed

text \<open>The term under the square root is never negative, whatever the latitudes.\<close>

lemma havA_nonneg: "0 \<le> havA lon1 lat1 lon2 lat2"
proof -
  define s where "s = (sin ((lon2 - lon1) * pi / 180 / 2))\<^sup>2"
  define t where "t = (sin ((lat2 - lat1) * pi / 180 / 2))\<^sup>2"
  define c where "c = cos (lat1 * pi / 180) * cos (lat2 * pi / 180)"
  have s: "0 \<le> s" "s \<le> 1" unfolding s_def by (simp_all add: abs_square_le_1)
  have t: "0 \<le> t" unfolding t_def by simp
  have "- (sin ((lat2 * pi / 180 - lat1 * pi / 180) / 2))\<^sup>2 \<le> c"
    unfolding c_def by (rule cos_cos_ge)
  moreover have "(lat2 * pi / 180 - lat1 * pi / 180) / 2 = (lat2 - lat1) * pi / 180 / 2"
    by (simp add: diff_divide_distrib left_diff_distrib)
  ultimately have c: "- t \<le> c" unfolding t_def by simp
  have "- t * s \<le> c * s" using c s(1) by (rule mult_right_mono)
  moreover have "t * s \<le> t" using s t by (simp add: mult_left_le)
  ultimately have "0 \<le> t + c * s" by linarith
  then show ?thesis unfolding havA_def s_def t_def c_def by simp
qed

lemma haversineMeters_Fin:
  "haversineMeters (Fin lon1) (Fin lat1) (Fin lon2) (Fin lat2)
     = Fin (2 * 6371000 * arcsin (min 1 (sqrt (havA lon1 lat1 lon2 lat2))))"
proof -
  have "0 \<le> sqrt (havA lon1 lat1 lon2 lat2)"
    using havA_nonneg [of lon1 lat1 lon2 lat2] by simp
  then have "- 1 \<le> sqrt (havA lon1 lat1 lon2 lat2)" by linarith
  then show ?thesis
    using havA_nonneg [of lon1 lat1 lon2 lat2]
    by (simp add: haversineMeters_def haversineA_Fin R_EARTH_def min_def)
qed

lemma haversineMeters_self:
  "haversineMeters (Fin lon1) (Fin lat1) (Fin lon1) (Fin lat1) = Fin 0"
  by (simp add: haversineMeters_Fin havA_def)

text \<open>Whatever number the square root is taken of, the clamp hands \<open>asin\<close> a value of
  \<open>[0, 1]\<close> or the \<open>NaN\<close> it received.\<close>

lemma clamped_sqrt_cases:
  "jmin (Fin 1) (jsqrt s) = NaN \<and> jsqrt s = NaN
   \<or> (\<exists>y. jmin (Fin 1) (jsqrt s) = Fin y \<and> 0 \<le> y \<and> y \<le> 1)"
  by (cases s) (simp_all add: min_def)

text \<open>On any four numbers the distance is \<open>NaN\<close> or a finite number that is not negative.\<close>

lemma haversineMeters_cases:
  "haversineMeters lon1 lat1 lon2 lat2 = NaN
   \<or> (\<exists>d. haversineMeters lon1 lat1 lon2 lat2 = Fin d \<and> 0 \<le> d)"
proof -
  define s where "s = haversineA lon1 lat1 lon2 lat2"
  have h: "haversineMeters lon1 lat1 lon2 lat2
             = jmul (Fin (2 * 6371000)) (jasin (jmin (Fin 1) (jsqrt s)))"
    by (simp add: haversineMeters_def s_def R_EARTH_def)
  from clamped_sqrt_cases [of s] show ?thesis
  proof
    assume "jmin (Fin 1) (jsqrt s) = NaN \<and> jsqrt s = NaN"
    then show ?thesis by (simp add: h)
  next
    assume "\<exists>y. jmin (Fin 1) (jsqrt s) = Fin y \<and> 0 \<le> y \<and> y \<le> 1"
    then obtain y where y: "jmin (Fin 1) (jsqrt s) = Fin y" "0 \<le> y" "y \<le> 1" by blast
    have "0 \<le> arcsin y" using y(2,3) by (simp add: arcsin_nonneg)
    then show ?thesis using y by (simp add: h)
  qed
qed

lemma haversineMeters_Fin_nonneg:
  "\<exists>d. haversineMeters (Fin lon1) (Fin lat1) (Fin lon2) (Fin lat2) = Fin d \<and> 0 \<le> d"
  using haversineMeters_cases [of "Fin lon1" "Fin lat1" "Fin lon2" "Fin lat2"]
  by (simp add: haversineMeters_Fin)

section \<open>Non-finite origins\<close>

lemma jadd_NaN_right: "jadd x NaN = NaN" by (cases x) simp_all

lemma jmul_NaN_right: "jmul x NaN = NaN" by (cases x) simp_all

lemma toRad_not_finite: "\<not> isFinite x \<Longrightarrow> \<not> isFinite (toRad x)"
  by (cases x) (simp_all add: toRad_def signedInf_def)

lemma jsub_not_finite: "\<not> isFinite x \<Longrightarrow> \<not> isFinite (jsub y x)"
  by (cases x; cases y) (simp_all add: jsub_def)

lemma jcos_not_finite: "\<not> isFinite x \<Longrightarrow> jcos x = NaN"
  by (cases x) simp_all

lemma jsin_half_not_finite: "\<not> isFinite x \<Longrightarrow> jsin (jdiv x (Fin 2)) = NaN"
  by (cases x) (simp_all add: signedInf_def)

lemma haversineA_origin_not_finite:
  assumes "\<not> isFinite lon1 \<or> \<not> isFinite lat1"
  shows "haversineA lon1 lat1 lon2 lat2 = NaN"
proof -
  from assms show ?thesis
  proof
    assume "\<not> isFinite lon1"
    then have "jsin (jdiv (toRad (jsub lon2 lon1)) (Fin 2)) = NaN"
      by (intro jsin_half_not_finite toRad_not_finite jsub_not_finite)
    then show ?thesis by (simp add: haversineA_def Let_def jmul_NaN_right jadd_NaN_right)
  next
    assume "\<not> isFinite lat1"
    then have "jcos (toRad lat1) = NaN"
      by (intro jcos_not_finite toRad_not_finite)
    then show ?thesis by (simp add: haversineA_def Let_def jmul_NaN_right jadd_NaN_right)
  qed
qed

lemma haversineMeters_origin_not_finite:
  "\<not> isFinite lon1 \<or> \<not> isFinite lat1 \<Longrightarrow> haversineMeters lon1 lat1 lon2 lat2 = NaN"
  by (simp add: haversineMeters_def haversineA_origin_not_finite jmul_NaN_right)

lemma jle_neg_radius:
  assumes "jlt r (Fin 0)"
  shows "\<not> jle (haversineMeters lon1 lat1 lon2 lat2) r"
  using haversineMeters_cases [of lon1 lat1 lon2 lat2] assms
  by (cases r) auto

section \<open>Sorting, filtering and slicing\<close>

lemma mset_insertByDistance: "mset (insertByDistance a xs) = add_mset a (mset xs)"
  by (induction xs) simp_all

lemma mset_sortByDistance: "mset (sortByDistance xs) = mset xs"
  by (induction xs) (simp_all add: sortByDistance_def mset_insertByDistance)

lemma set_sortByDistance: "set (sortByDistance xs) = set xs"
  using mset_sortByDistance [of xs] by (rule mset_eq_setD)

lemma set_insertByDistance: "set (insertByDistance a xs) = insert a (set xs)"
  using mset_insertByDistance [of a xs] by (metis mset_eq_setD set_mset_add_mset_insert set_mset_mset)

lemma sortByDistance_single: "sortByDistance [a] = [a]" "sortByDistance [] = []"
  by (simp_all add: sortByDistance_def)

lemma length_filter_sortByDistance:
  "length (filter P (sortByDistance xs)) = length (filter P xs)"
proof -
  have "mset (filter P (sortByDistance xs)) = mset (filter P xs)"
    by (simp add: mset_sortByDistance)
  then show ?thesis by (rule mset_eq_length)
qed

lemma truncInt_nat: "truncInt (real n) = int n"
  by (simp add: truncInt_def)

lemma slice0_nat: "slice0 xs (Fin (real n)) = take n xs"
  by (simp add: truncInt_nat)

lemma length_withinRadius_withDistances:
  "length (withinRadius (sortByDistance (withDistances k arr lon0 lat0)) r)
     = length (filter (inRadius lon0 lat0 r) arr)"
proof -
  have "length (withinRadius (sortByDistance (withDistances k arr lon0 lat0)) r)
          = length (filter (\<lambda>p. jle (distance_m p) r) (withDistances k arr lon0 lat0))"
    unfolding withinRadius_def by (rule length_filter_sortByDistance)
  also have "\<dots> = length (filter (inRadius lon0 lat0 r) arr)"
    by (simp add: withDistances_def filter_map o_def inRadius_def [abs_def])
  finally show ?thesis .
qed

lemma nearCategory_nat:
  "nearCategory k arr lon0 lat0 r (Fin (real n))
     = take n (withinRadius (sortByDistance (withDistances k arr lon0 lat0)) r)"
  by (simp add: nearCategory_def slice0_nat del: slice0.simps)

lemma length_nearCategory:
  "length (nearCategory k arr lon0 lat0 r (Fin (real n)))
     = min (length (filter (inRadius lon0 lat0 r) arr)) n"
  by (simp add: nearCategory_nat length_withinRadius_withDistances min.commute)

lemma set_withDistances:
  "q \<in> set (withDistances k arr lon0 lat0) \<Longrightarrow>
     \<exists>p \<in> set arr. lon q = lon p \<and> lat q = lat p \<and> name q = name p
        \<and> distance_m q = haversineMeters lon0 lat0 (lon p) (lat p)"
  by (auto simp: withDistances_def)

lemma withinRadius_empty:
  assumes "\<And>p. p \<in> set arr \<Longrightarrow> \<not> jle (haversineMeters lon0 lat0 (lon p) (lat p)) r"
  shows "withinRadius (sortByDistance (withDistances k arr lon0 lat0)) r = []"
proof -
  have "\<not> jle (distance_m q) r" if "q \<in> set (sortByDistance (withDistances k arr lon0 lat0))" for q
    using that assms set_withDistances [of q k arr lon0 lat0]
    by (auto simp: set_sortByDistance)
  then show ?thesis unfolding withinRadius_def by (simp add: filter_empty_conv)
qed

lemma nearCategory_invalid:
  assumes "\<not> isFinite lon0 \<or> \<not> isFinite lat0 \<or> jlt r (Fin 0)"
  shows "nearCategory k arr lon0 lat0 r n = []"
proof -
  have "\<not> jle (haversineMeters lon0 lat0 (lon p) (lat p)) r" for p :: Poi
    using assms haversineMeters_origin_not_finite [of lon0 lat0 "lon p" "lat p"]
      jle_neg_radius [of r lon0 lat0 "lon p" "lat p"]
    by auto
  then have "withinRadius (sortByDistance (withDistances k arr lon0 lat0)) r = []"
    by (intro withinRadius_empty)
  then show ?thesis by (cases n) (simp_all add: nearCategory_def)
qed

lemma isFinite_iff: "isFinite x = (\<exists>v. x = Fin v)"
  by (cases x) simp_all

lemma sorted_insertByDistance:
  assumes "isFinite (distance_m a)" "\<forall>p\<in>set xs. isFinite (distance_m p)"
    and "sorted_wrt (\<lambda>p q. jle (distance_m p) (distance_m q)) xs"
  shows "sorted_wrt (\<lambda>p q. jle (distance_m p) (distance_m q)) (insertByDistance a xs)"
  using assms
proof (induction xs)
  case Nil
  then show ?case by simp
next
  case (Cons b rest)
  obtain u v where uv: "distance_m a = Fin u" "distance_m b = Fin v"
    using Cons.prems by (auto simp: isFinite_iff)
  show ?case
  proof (cases "comesAfter a b")
    case True
    then have "v < u" by (simp add: comesAfter_def uv jsub_def)
    then have "jle (distance_m b) (distance_m a)" by (simp add: uv)
    then show ?thesis using True Cons by (auto simp: set_insertByDistance)
  next
    case False
    then have le: "u \<le> v" by (simp add: comesAfter_def uv jsub_def)
    have "jle (distance_m a) (distance_m q)" if qin: "q \<in> set rest" for q
    proof -
      obtain w where w: "distance_m q = Fin w" using Cons.prems(2) qin by (auto simp: isFinite_iff)
      have "jle (distance_m b) (distance_m q)" using Cons.prems(3) qin by simp
      then show ?thesis using le by (simp add: uv w)
    qed
    then show ?thesis using False Cons.prems le by (auto simp: uv)
  qed
qed

lemma sorted_sortByDistance:
  "\<forall>p\<in>set xs. isFinite (distance_m p) \<Longrightarrow>
   sorted_wrt (\<lambda>p q. jle (distance_m p) (distance_m q)) (sortByDistance xs)"
proof (induction xs)
  case Nil
  then show ?case by (simp add: sortByDistance_def)
next
  case (Cons a xs)
  have "sorted_wrt (\<lambda>p q. jle (distance_m p) (distance_m q)) (insertByDistance a (sortByDistance xs))"
    using Cons by (intro sorted_insertByDistance) (simp_all add: set_sortByDistance)
  then show ?case by (simp add: sortByDistance_def)
qed

lemma leastDistance_least:
  assumes "\<forall>d\<in>set ds. isFinite d" "ds \<noteq> []"
  shows "leastDistance ds \<in> set ds \<and> (\<forall>d\<in>set ds. jle (leastDistance ds) d)"
  using assms
proof (induction ds)
  case Nil
  then show ?case by simp
next
  case (Cons d ds)
  obtain u where u: "d = Fin u" using Cons.prems by (auto simp: isFinite_iff)
  show ?case
  proof (cases "ds = []")
    case True
    then show ?thesis by (simp add: u)
  next
    case False
    then have ih: "leastDistance ds \<in> set ds" "\<forall>e\<in>set ds. jle (leastDistance ds) e"
      using Cons by simp_all
    then obtain m where m: "leastDistance ds = Fin m" using Cons.prems by (auto simp: isFinite_iff)
    have "jle (Fin (min u m)) e" if ein: "e \<in> set ds" for e
    proof -
      obtain w where w: "e = Fin w" using Cons.prems ein by (auto simp: isFinite_iff)
      then show ?thesis using ih(2) ein m by auto
    qed
    then show ?thesis using ih(1) by (auto simp: u m min_def)
  qed
qed

lemma jle_antisym: "jle a b \<Longrightarrow> jle b a \<Longrightarrow> isFinite a \<Longrightarrow> a = b"
  by (cases a; cases b) simp_all

lemma sorted_head_least:
  assumes "\<forall>p\<in>set xs. isFinite (distance_m p)"
    and "sorted_wrt (\<lambda>p q. jle (distance_m p) (distance_m q)) (y # ys)"
    and "set (y # ys) = set xs"
  shows "distance_m y = leastDistance (map distance_m xs)"
proof -
  have ne: "map distance_m xs \<noteq> []" using assms(3) by auto
  have fin: "\<forall>d\<in>set (map distance_m xs). isFinite d" using assms(1) by simp
  note l = leastDistance_least [OF fin ne]
  have yin: "y \<in> set xs" using assms(3) by auto
  have 1: "jle (leastDistance (map distance_m xs)) (distance_m y)" using l yin by simp
  obtain z where z: "z \<in> set xs" "leastDistance (map distance_m xs) = distance_m z"
    using l by auto
  have "z = y \<or> z \<in> set ys" using z(1) assms(3) by auto
  moreover have "jle (distance_m y) (distance_m y)" using assms(1) yin by (auto simp: isFinite_iff)
  ultimately have 2: "jle (distance_m y) (distance_m z)" using assms(2) by auto
  have "isFinite (distance_m y)" using assms(1) yin by simp
  then show ?thesis using 1 2 z(2) jle_antisym by metis
qed

lemma withDistances_finite:
  assumes "\<forall>p\<in>set arr. finiteCoords p"
  shows "\<forall>q\<in>set (withDistances k arr (Fin x) (Fin y)). \<exists>v. distance_m q = Fin v \<and> 0 \<le> v"
proof
  fix q assume "q \<in> set (withDistances k arr (Fin x) (Fin y))"
  then obtain p where p: "p \<in> set arr"
      "distance_m q = haversineMeters (Fin x) (Fin y) (lon p) (lat p)"
    using set_withDistances by blast
  obtain a b where "lon p = Fin a" "lat p = Fin b"
    using assms p(1) by (auto simp: finiteCoords_def isFinite_iff)
  then show "\<exists>v. distance_m q = Fin v \<and> 0 \<le> v"
    using haversineMeters_Fin_nonneg [of x y a b] p(2) by auto
qed

lemma map_distance_withDistances:
  "map distance_m (withDistances k arr lon0 lat0)
     = map (\<lambda>p. haversineMeters lon0 lat0 (lon p) (lat p)) arr"
  by (simp add: withDistances_def o_def)

section \<open>The loader\<close>







section \<open>The scoring formula\<close>

lemma countNorm_Fin: "countNorm n = Fin (real n / (real n + 4))"
  by (simp add: countNorm_def COUNT_SAT_K_def)

lemma countNorm_mono: "m \<le> n \<Longrightarrow> real m / (real m + 4) \<le> real n / (real n + 4)"
  by (simp add: field_simps)

lemma clamp01_Fin: "clamp01 (Fin x) = Fin (max 0 (min 1 x))"
  by (simp add: clamp01_def max_def min_def)

lemma prox_not_finite: "\<not> isFinite d \<Longrightarrow> prox r d = Fin 0"
  by (simp add: prox_def)

lemma prox_Fin_Fin:
  "prox (Fin r) (Fin d) =
     (if r = 0 then (if d = 0 then NaN else if 0 < d then Fin 0 else Fin 1)
      else Fin (proxR r d))"
  by (simp add: prox_def proxR_def clamp01_Fin jsub_def signedInf_def clamp01_def Let_def)

lemma prox_Inf_Fin: "prox PInf (Fin d) = Fin 1" "prox NInf (Fin d) = Fin 1"
  by (simp_all add: prox_def clamp01_Fin jsub_def Let_def)

lemma prox_NaN_Fin: "prox NaN (Fin d) = NaN"
  by (simp add: prox_def clamp01_def jsub_def Let_def)

lemma proxR_range: "0 \<le> proxR r d \<and> proxR r d \<le> 1"
  by (simp add: proxR_def powr_le1)

lemma proxR_mono: "0 < r \<Longrightarrow> d1 \<le> d2 \<Longrightarrow> proxR r d2 \<le> proxR r d1"
proof -
  assume r: "0 < r" and d: "d1 \<le> d2"
  have "d1 / r \<le> d2 / r" using r d by (simp add: divide_right_mono)
  then have "max 0 (min 1 (1 - d2 / r)) \<le> max 0 (min 1 (1 - d1 / r))" by simp
  then show ?thesis unfolding proxR_def by (intro powr_mono2) simp_all
qed

lemma proxR_neg_radius: "r < 0 \<Longrightarrow> 0 \<le> d \<Longrightarrow> proxR r d = 1"
proof -
  assume r: "r < 0" and d: "0 \<le> d"
  have "d / r \<le> 0" using r d by (simp add: divide_nonneg_neg)
  then have "max 0 (min 1 (1 - d / r)) = 1" by simp
  then show ?thesis by (simp add: proxR_def)
qed

lemma proxR_zero_iff: "0 < r \<Longrightarrow> (proxR r d = 0) = (r \<le> d)"
  by (auto simp: proxR_def max_def min_def field_simps)

lemma prox_cases: "prox r d = NaN \<or> (\<exists>v. prox r d = Fin v \<and> 0 \<le> v \<and> v \<le> 1)"
  using proxR_range by (cases r; cases d) (simp_all add: prox_Fin_Fin prox_Inf_Fin prox_NaN_Fin prox_not_finite)

lemma prox_antimono_weak:
  assumes "jle (Fin 0) d1" "jle d1 d2"
  shows "\<not> jlt (prox r d1) (prox r d2)"
proof (cases r)
  case (Fin x)
  consider "x < 0" | "x = 0" | "0 < x" by linarith
  then show ?thesis
  proof cases
    case 1
    then show ?thesis using assms Fin proxR_range
      by (cases d1; cases d2) (simp_all add: prox_Fin_Fin prox_not_finite proxR_neg_radius)
  next
    case 2
    then show ?thesis using assms Fin
      by (cases d1; cases d2) (simp_all add: prox_Fin_Fin prox_not_finite)
  next
    case 3
    then show ?thesis using assms Fin proxR_range proxR_mono [OF 3]
      by (cases d1; cases d2) (simp_all add: prox_Fin_Fin prox_not_finite not_less)
  qed
qed (use assms in \<open>cases d1; cases d2; simp add: prox_Inf_Fin prox_NaN_Fin prox_not_finite\<close>)+

lemma prox_antimono:
  assumes "jle (Fin 0) d1" "jle d1 d2" "prox r d1 \<noteq> NaN"
  shows "jle (prox r d2) (prox r d1)"
proof (cases r)
  case (Fin x)
  consider "x < 0" | "x = 0" | "0 < x" by linarith
  then show ?thesis
  proof cases
    case 1
    then show ?thesis using assms Fin proxR_range
      by (cases d1; cases d2) (simp_all add: prox_Fin_Fin prox_not_finite proxR_neg_radius)
  next
    case 2
    then show ?thesis using assms Fin
      by (cases d1; cases d2) (auto simp add: prox_Fin_Fin prox_not_finite split: if_splits)
  next
    case 3
    then show ?thesis using assms Fin proxR_range proxR_mono [OF 3]
      by (cases d1; cases d2) (simp_all add: prox_Fin_Fin prox_not_finite not_less)
  qed
qed (use assms in \<open>cases d1; cases d2; simp add: prox_Inf_Fin prox_NaN_Fin prox_not_finite\<close>)+

lemma categoryScore_Fin:
  "prox r d = Fin v \<Longrightarrow>
   categoryScore w r n d = Fin (w * (0.8 * (real n / (real n + 4)) + 0.2 * v))"
  by (simp add: categoryScore_def countNorm_Fin MIX_COUNTS_def MIX_PROX_def)

lemma categoryScore_NaN: "prox r d = NaN \<Longrightarrow> categoryScore w r n d = NaN"
  by (simp add: categoryScore_def countNorm_Fin)

lemma categoryScore_cases:
  "categoryScore w r n d = NaN \<and> prox r d = NaN
   \<or> (\<exists>v. prox r d = Fin v \<and> 0 \<le> v \<and> v \<le> 1
          \<and> categoryScore w r n d = Fin (w * (0.8 * (real n / (real n + 4)) + 0.2 * v)))"
  using prox_cases [of r d] categoryScore_Fin categoryScore_NaN by blast

lemma weighted_mono:
  fixes w a b v :: real
  assumes "0 \<le> w" "a \<le> b"
  shows "w * (0.8 * a + 0.2 * v) \<le> w * (0.8 * b + 0.2 * v)"
  using assms by (intro mult_left_mono) simp_all

lemma categoryScore_mono_weak:
  assumes "0 \<le> w" "n1 \<le> n2"
  shows "\<not> jlt (categoryScore w r n2 d) (categoryScore w r n1 d)"
proof -
  from prox_cases [of r d] show ?thesis
  proof
    assume "prox r d = NaN"
    then show ?thesis by (simp add: categoryScore_NaN)
  next
    assume "\<exists>v. prox r d = Fin v \<and> 0 \<le> v \<and> v \<le> 1"
    then obtain v where v: "prox r d = Fin v" by blast
    show ?thesis
      using weighted_mono [OF assms(1) countNorm_mono [OF assms(2)], of v]
      by (simp only: categoryScore_Fin [OF v] jlt.simps not_less)
  qed
qed

lemma categoryScore_mono:
  assumes "0 \<le> w" "n1 \<le> n2" "prox r d \<noteq> NaN"
  shows "jle (categoryScore w r n1 d) (categoryScore w r n2 d)"
proof -
  from prox_cases [of r d] assms(3) obtain v where v: "prox r d = Fin v" by blast
  show ?thesis
    using weighted_mono [OF assms(1) countNorm_mono [OF assms(2)], of v]
    by (simp only: categoryScore_Fin [OF v] jle.simps)
qed

lemma categoryScore_empty: "categoryScore w r 0 PInf = Fin 0"
  by (simp add: categoryScore_def countNorm_Fin prox_not_finite)

lemma summary_Nil: "summary [] = \<lparr>cat_count = 0, nearest = None\<rparr>"
  by (simp add: summary_def)

lemma prox_nearest_in_radius:
  assumes r: "0 < r" and n: "0 < n"
    and fin: "\<forall>q\<in>set ws. \<exists>v. distance_m q = Fin v \<and> 0 \<le> v"
  shows "prox (Fin r) (nearestDistance (summary (take n (withinRadius (sortByDistance ws) (Fin r)))))
           = prox (Fin r) (leastDistance (map distance_m ws))"
proof (cases "sortByDistance ws")
  case Nil
  then have "ws = []" using set_sortByDistance [of ws] by simp
  then show ?thesis
    by (simp add: sortByDistance_def withinRadius_def summary_def nearestDistance_def)
next
  case (Cons y ys)
  have fin': "\<forall>p\<in>set ws. isFinite (distance_m p)" using fin by (auto simp: isFinite_iff)
  have srt: "sorted_wrt (\<lambda>p q. jle (distance_m p) (distance_m q)) (y # ys)"
    using sorted_sortByDistance [OF fin'] Cons by simp
  have st: "set (y # ys) = set ws" using set_sortByDistance [of ws] Cons by simp
  have least: "distance_m y = leastDistance (map distance_m ws)"
    using fin' srt st by (rule sorted_head_least)
  obtain u where u: "distance_m y = Fin u" "0 \<le> u" using fin st by auto
  obtain m where m: "n = Suc m" using n by (cases n) simp_all
  show ?thesis
  proof (cases "u \<le> r")
    case True
    then have "withinRadius (y # ys) (Fin r) = y # withinRadius ys (Fin r)"
      by (simp add: withinRadius_def u)
    then show ?thesis
      by (simp add: Cons m summary_def nearestDistance_def least)
  next
    case False
    have "\<not> jle (distance_m q) (Fin r)" if qin: "q \<in> set (y # ys)" for q
    proof -
      obtain w where w: "distance_m q = Fin w" using fin st qin by auto
      have "q = y \<or> jle (distance_m y) (distance_m q)" using srt qin by auto
      then have "u \<le> w" using u w by auto
      then show ?thesis using False w by simp
    qed
    then have "withinRadius (y # ys) (Fin r) = []"
      unfolding withinRadius_def by (simp add: filter_empty_conv)
    moreover have "prox (Fin r) (Fin u) = Fin 0"
      using False r proxR_zero_iff [of r u] by (simp add: prox_Fin_Fin)
    ultimately show ?thesis
      by (simp add: Cons summary_def nearestDistance_def least [symmetric] u prox_not_finite)
  qed
qed

section \<open>The parts of a score result\<close>

lemma scorePoint_shelters:
  "r_shelters (scorePoint L ps)
     = summary (nearCategory Shelter (shelter L) (sp_lon ps) (sp_lat ps) (radiusOf ps) (topNOf ps))"
  by (simp add: scorePoint_def nearbyPois_def Let_def radiusOf_def topNOf_def)

lemma scorePoint_schools:
  "r_schools (scorePoint L ps)
     = summary (nearCategory School (school L) (sp_lon ps) (sp_lat ps) (radiusOf ps) (topNOf ps))"
  by (simp add: scorePoint_def nearbyPois_def Let_def radiusOf_def topNOf_def)

lemma scorePoint_healths:
  "r_healths (scorePoint L ps)
     = summary (nearCategory Health (health L) (sp_lon ps) (sp_lat ps) (radiusOf ps) (topNOf ps))"
  by (simp add: scorePoint_def nearbyPois_def Let_def radiusOf_def topNOf_def)

lemma summary_capped:
  "cat_count (summary (nearCategory k arr lon0 lat0 r (Fin (real n))))
     = min (length (filter (inRadius lon0 lat0 r) arr)) n
   \<and> jle (countNorm (cat_count (summary (nearCategory k arr lon0 lat0 r (Fin (real n))))))
         (Fin (real n / (real n + 4)))
   \<and> nearest (summary (nearCategory k arr lon0 lat0 r (Fin (real n))))
       = (case take n (withinRadius (sortByDistance (withDistances k arr lon0 lat0)) r) of
            [] \<Rightarrow> None | p # rest \<Rightarrow> Some p)"
proof -
  define xs where "xs = nearCategory k arr lon0 lat0 r (Fin (real n))"
  have c: "cat_count (summary xs) = min (length (filter (inRadius lon0 lat0 r) arr)) n"
    by (simp add: summary_def xs_def length_nearCategory)
  have "cat_count (summary xs) \<le> n" by (simp add: c)
  then have b: "jle (countNorm (cat_count (summary xs))) (Fin (real n / (real n + 4)))"
    by (simp only: countNorm_Fin jle.simps countNorm_mono)
  have "nearest (summary xs)
           = (case take n (withinRadius (sortByDistance (withDistances k arr lon0 lat0)) r) of
                [] \<Rightarrow> None | p # rest \<Rightarrow> Some p)"
    by (simp add: summary_def xs_def nearCategory_nat)
  then show ?thesis using c b unfolding xs_def by blast
qed

lemma inRadius_self: "0 \<le> r \<Longrightarrow> inRadius (Fin x) (Fin y) (Fin r) (poiAt nm x y)"
  by (simp add: inRadius_def poiAt_def haversineMeters_self)

lemma scorePoint_invalid:
  assumes "\<not> isFinite (sp_lon ps) \<or> \<not> isFinite (sp_lat ps) \<or> jlt (radiusOf ps) (Fin 0)"
  shows "scorePoint L ps =
     \<lparr>r_shelters = \<lparr>cat_count = 0, nearest = None\<rparr>,
      r_schools = \<lparr>cat_count = 0, nearest = None\<rparr>,
      r_healths = \<lparr>cat_count = 0, nearest = None\<rparr>,
      score = Fin 0,
      r_params = \<lparr>rp_lon = sp_lon ps, rp_lat = sp_lat ps, rp_radiusMeters = radiusOf ps,
                  rp_weights = WEIGHTS, rp_topN = topNOf ps\<rparr>\<rparr>"
proof -
  have n: "nearCategory k arr (sp_lon ps) (sp_lat ps) (radiusOf ps) (topNOf ps) = []" for k arr
    using assms by (rule nearCategory_invalid)
  show ?thesis
    using n [of Shelter "shelter L"] n [of School "school L"] n [of Health "health L"]
    by (simp add: scorePoint_def nearbyPois_def Let_def radiusOf_def [symmetric]
        topNOf_def [symmetric] summary_Nil nearestDistance_def categoryScore_empty clamp01_Fin)
qed

lemma nearbyPois_invalid:
  assumes "\<not> isFinite lon0 \<or> \<not> isFinite lat0 \<or> jlt r (Fin 0)"
  shows "nearbyPois L lon0 lat0 r n =
     \<lparr>shelters = [], schools = [], healths = [], allNear = [],
      params = \<lparr>q_lon = lon0, q_lat = lat0, q_radiusMeters = r, q_topN = n\<rparr>\<rparr>"
  using nearCategory_invalid [OF assms]
  by (simp add: nearbyPois_def Let_def sortByDistance_single)

section \<open>The range of the score\<close>

lemma set_slice0: "set (slice0 xs n) \<subseteq> set xs"
  by (cases n) (auto dest: in_set_takeD)

lemma nearCategory_within:
  "q \<in> set (nearCategory k arr lon0 lat0 r n) \<Longrightarrow>
     q \<in> set (withDistances k arr lon0 lat0) \<and> jle (distance_m q) r"
proof -
  assume "q \<in> set (nearCategory k arr lon0 lat0 r n)"
  then have "q \<in> set (withinRadius (sortByDistance (withDistances k arr lon0 lat0)) r)"
    unfolding nearCategory_def
    by (rule subsetD [OF set_slice0])
  then show ?thesis by (simp add: withinRadius_def set_sortByDistance)
qed

lemma nearestDistance_summary:
  "nearestDistance (summary xs) = PInf \<or> (\<exists>q\<in>set xs. nearestDistance (summary xs) = distance_m q)"
  by (cases xs) (simp_all add: summary_def nearestDistance_def)

lemma prox_in_radius:
  assumes "jle d r" "r \<noteq> Fin 0"
  shows "\<exists>v. prox r d = Fin v \<and> 0 \<le> v \<and> v \<le> 1"
  using assms proxR_range
  by (cases r; cases d) (simp_all add: prox_Fin_Fin prox_Inf_Fin prox_not_finite)

lemma prox_nearCategory:
  assumes "r \<noteq> Fin 0"
  shows "\<exists>v. prox r (nearestDistance (summary (nearCategory k arr lon0 lat0 r n))) = Fin v
            \<and> 0 \<le> v \<and> v \<le> 1"
proof -
  from nearestDistance_summary [of "nearCategory k arr lon0 lat0 r n"] show ?thesis
  proof
    assume "nearestDistance (summary (nearCategory k arr lon0 lat0 r n)) = PInf"
    then show ?thesis by (simp add: prox_not_finite)
  next
    assume "\<exists>q\<in>set (nearCategory k arr lon0 lat0 r n).
              nearestDistance (summary (nearCategory k arr lon0 lat0 r n)) = distance_m q"
    then obtain q where q: "q \<in> set (nearCategory k arr lon0 lat0 r n)"
      "nearestDistance (summary (nearCategory k arr lon0 lat0 r n)) = distance_m q" by blast
    have "jle (distance_m q) r" using nearCategory_within [OF q(1)] by simp
    then show ?thesis using prox_in_radius [OF _ assms] q(2) by simp
  qed
qed

lemma countNorm_range: "0 \<le> real n / (real n + 4) \<and> real n / (real n + 4) \<le> 1"
  by (simp add: field_simps)

lemma weighted_range:
  fixes w c v :: real
  assumes "0 \<le> w" "0 \<le> c" "c \<le> 1" "0 \<le> v" "v \<le> 1"
  shows "0 \<le> w * (0.8 * c + 0.2 * v) \<and> w * (0.8 * c + 0.2 * v) \<le> w"
proof -
  have a: "0 \<le> 0.8 * c + 0.2 * v" using assms by simp
  have b: "0.8 * c + 0.2 * v \<le> 1" using assms by simp
  have "w * (0.8 * c + 0.2 * v) \<le> w * 1" using assms(1) b by (rule mult_left_mono[rotated])
  then show ?thesis using a assms(1) by simp
qed

lemma categoryScore_range:
  assumes "0 \<le> w" "prox r d = Fin v" "0 \<le> v" "v \<le> 1"
  shows "\<exists>s. categoryScore w r n d = Fin s \<and> 0 \<le> s \<and> s \<le> w"
  using weighted_range [OF assms(1) _ _ assms(3,4), of "real n / (real n + 4)"] countNorm_range [of n]
  by (simp only: categoryScore_Fin [OF assms(2)]) blast

lemma scorePoint_score:
  "score (scorePoint L ps) =
     clamp01 (jadd (jadd
       (categoryScore 0.6 (radiusOf ps) (cat_count (r_shelters (scorePoint L ps)))
          (nearestDistance (r_shelters (scorePoint L ps))))
       (categoryScore 0.25 (radiusOf ps) (cat_count (r_schools (scorePoint L ps)))
          (nearestDistance (r_schools (scorePoint L ps)))))
       (categoryScore 0.15 (radiusOf ps) (cat_count (r_healths (scorePoint L ps)))
          (nearestDistance (r_healths (scorePoint L ps)))))"
  by (simp add: scorePoint_def Let_def radiusOf_def WEIGHTS_def)

lemma scorePoint_bounded:
  assumes "radiusOf ps \<noteq> Fin 0"
  shows "\<exists>v. score (scorePoint L ps) = Fin v \<and> 0 \<le> v \<and> v \<le> 1"
proof -
  obtain v1 where v1: "prox (radiusOf ps) (nearestDistance (r_shelters (scorePoint L ps))) = Fin v1"
      "0 \<le> v1" "v1 \<le> 1"
    unfolding scorePoint_shelters using prox_nearCategory [OF assms] by blast
  obtain v2 where v2: "prox (radiusOf ps) (nearestDistance (r_schools (scorePoint L ps))) = Fin v2"
      "0 \<le> v2" "v2 \<le> 1"
    unfolding scorePoint_schools using prox_nearCategory [OF assms] by blast
  obtain v3 where v3: "prox (radiusOf ps) (nearestDistance (r_healths (scorePoint L ps))) = Fin v3"
      "0 \<le> v3" "v3 \<le> 1"
    unfolding scorePoint_healths using prox_nearCategory [OF assms] by blast
  obtain s1 where s1: "categoryScore 0.6 (radiusOf ps) (cat_count (r_shelters (scorePoint L ps)))
          (nearestDistance (r_shelters (scorePoint L ps))) = Fin s1" "0 \<le> s1" "s1 \<le> 0.6"
    using categoryScore_range [OF _ v1, of "0.6"] by auto
  obtain s2 where s2: "categoryScore 0.25 (radiusOf ps) (cat_count (r_schools (scorePoint L ps)))
          (nearestDistance (r_schools (scorePoint L ps))) = Fin s2" "0 \<le> s2" "s2 \<le> 0.25"
    using categoryScore_range [OF _ v2, of "0.25"] by auto
  obtain s3 where s3: "categoryScore 0.15 (radiusOf ps) (cat_count (r_healths (scorePoint L ps)))
          (nearestDistance (r_healths (scorePoint L ps))) = Fin s3" "0 \<le> s3" "s3 \<le> 0.15"
    using categoryScore_range [OF _ v3, of "0.15"] by auto
  have "score (scorePoint L ps) = clamp01 (Fin (s1 + s2 + s3))"
    unfolding scorePoint_score by (simp only: s1(1) s2(1) s3(1) jadd.simps)
  also have "\<dots> = Fin (s1 + s2 + s3)"
    using s1(2,3) s2(2,3) s3(2,3) by (simp add: clamp01_Fin)
  finally show ?thesis using s1(2,3) s2(2,3) s3(2,3) by auto
qed

section \<open>Sample evaluations and further lemmas\<close>






lemma withinRadius_mem: "(p \<in> set (withinRadius xs r)) = (p \<in> set xs \<and> jle (distance_m p) r)"
  by (simp add: withinRadius_def)

lemma jlt_not_jle: "jlt r d \<Longrightarrow> \<not> jle d r"
  by (cases r; cases d) simp_all

lemma nearCategory_zero_radius:
  assumes "q \<in> set (nearCategory k arr lon0 lat0 (Fin 0) n)"
  shows "distance_m q = Fin 0"
proof -
  have w: "q \<in> set (withDistances k arr lon0 lat0)" "jle (distance_m q) (Fin 0)"
    using nearCategory_within [OF assms] by simp_all
  obtain p :: Poi where p: "distance_m q = haversineMeters lon0 lat0 (lon p) (lat p)"
    using set_withDistances [OF w(1)] by blast
  show ?thesis
    using haversineMeters_cases [of lon0 lat0 "lon p" "lat p"] w(2) by (auto simp: p)
qed

lemma nearby_zero_radius:
  "shelters (nearbyPois shelterAtOrigin (Fin 0) (Fin 0) (Fin 0) (Fin 25))
     = [\<lparr>name = str ''S'', lon = Fin 0, lat = Fin 0, primary = None, tags = None,
         distance_m = Fin 0, kind = Shelter\<rparr>]"
  by (simp add: nearbyPois_def nearCategory_def shelterAtOrigin_def poiAt_def
      withDistances_def sortByDistance_single withinRadius_def haversineMeters_self truncInt_def
      Let_def)

lemma havA_360: "havA 360 0 0 0 = 0"
  by (simp add: havA_def)

lemma score_at_lon_360:
  "scorePoint shelterAtOrigin
      \<lparr>sp_lon = Fin 360, sp_lat = Fin 0, sp_radiusMeters = None, sp_topN = None\<rparr>
   = \<lparr>r_shelters = \<lparr>cat_count = 1, nearest = Some
          \<lparr>name = str ''S'', lon = Fin 0, lat = Fin 0, primary = None, tags = None,
           distance_m = Fin 0, kind = Shelter\<rparr>\<rparr>,
      r_schools = \<lparr>cat_count = 0, nearest = None\<rparr>,
      r_healths = \<lparr>cat_count = 0, nearest = None\<rparr>,
      score = Fin 0.216,
      r_params = \<lparr>rp_lon = Fin 360, rp_lat = Fin 0, rp_radiusMeters = Fin 1500,
                  rp_weights = WEIGHTS, rp_topN = Fin 25\<rparr>\<rparr>"
  by (simp add: scorePoint_def nearbyPois_def nearCategory_def shelterAtOrigin_def poiAt_def
      withDistances_def sortByDistance_single withinRadius_def haversineMeters_Fin havA_360
      truncInt_def summary_def nearestDistance_def categoryScore_def prox_Fin_Fin proxR_def
      clamp01_Fin Let_def countNorm_Fin WEIGHTS_def MIX_COUNTS_def MIX_PROX_def prox_not_finite)

lemma nearestInCatalog_cases:
  assumes "\<forall>p\<in>set arr. finiteCoords p"
  shows "nearestInCatalog arr (Fin x) (Fin y) = PInf
         \<or> (\<exists>v. nearestInCatalog arr (Fin x) (Fin y) = Fin v \<and> 0 \<le> v)"
proof (cases "arr = []")
  case True
  then show ?thesis by (simp add: nearestInCatalog_def)
next
  case False
  define ds where "ds = map (\<lambda>p. haversineMeters (Fin x) (Fin y) (lon p) (lat p)) arr"
  have nn: "\<exists>v. d = Fin v \<and> 0 \<le> v" if din: "d \<in> set ds" for d
  proof -
    obtain p where p: "p \<in> set arr" "d = haversineMeters (Fin x) (Fin y) (lon p) (lat p)"
      using din unfolding ds_def by auto
    obtain a b where "lon p = Fin a" "lat p = Fin b"
      using assms p(1) by (auto simp: finiteCoords_def isFinite_iff)
    then show ?thesis using haversineMeters_Fin_nonneg [of x y a b] p(2) by simp
  qed
  have fin: "\<forall>d\<in>set ds. isFinite d" using nn by (auto simp: isFinite_iff)
  have ne: "ds \<noteq> []" using False by (simp add: ds_def)
  have "leastDistance ds \<in> set ds" using leastDistance_least [OF fin ne] by simp
  then show ?thesis using nn unfolding nearestInCatalog_def ds_def [symmetric] by blast
qed

lemma prox_category:
  assumes "0 < r" "0 < n" "\<forall>p\<in>set arr. finiteCoords p"
  shows "prox (Fin r) (nearestDistance (summary (nearCategory k arr (Fin x) (Fin y) (Fin r) (Fin (real n)))))
           = prox (Fin r) (nearestInCatalog arr (Fin x) (Fin y))"
  using prox_nearest_in_radius [OF assms(1,2) withDistances_finite [OF assms(3)], of k x y]
  by (simp only: nearCategory_nat map_distance_withDistances nearestInCatalog_def)

lemma prox_positive_radius:
  assumes "0 < r"
  shows "\<exists>v. prox (Fin r) d = Fin v \<and> 0 \<le> v \<and> v \<le> 1"
  using assms proxR_range [of r] by (cases d) (simp_all add: prox_Fin_Fin prox_not_finite)

lemma prox_zero_iff:
  assumes "0 < r" "jle (Fin 0) d"
  shows "(prox (Fin r) d = Fin 0) = jle (Fin r) d"
  using assms proxR_zero_iff [OF assms(1)]
  by (cases d) (simp_all add: prox_Fin_Fin prox_not_finite)

lemma prox_zero_iff_catalog:
  assumes "0 < r" "\<forall>p\<in>set arr. finiteCoords p"
  shows "(prox (Fin r) (nearestInCatalog arr (Fin x) (Fin y)) = Fin 0)
           = jle (Fin r) (nearestInCatalog arr (Fin x) (Fin y))"
proof -
  have "jle (Fin 0) (nearestInCatalog arr (Fin x) (Fin y))"
    using nearestInCatalog_cases [OF assms(2), of x y] by auto
  then show ?thesis using assms(1) by (rule prox_zero_iff [rotated])
qed

lemma prox_antimono_positive:
  assumes "0 < r" "jle (Fin 0) d1" "jle d1 d2"
  shows "jle (prox (Fin r) d2) (prox (Fin r) d1)"
proof -
  obtain v where "prox (Fin r) d1 = Fin v" using prox_positive_radius [OF assms(1)] by blast
  then have "prox (Fin r) d1 \<noteq> NaN" by simp
  then show ?thesis using assms(2,3) by (intro prox_antimono)
qed

lemma havA_antipode: "havA 0 0 180 0 = 1"
  by (simp add: havA_def)

lemma far_shelter_distance:
  "haversineMeters (Fin 0) (Fin 0) (Fin 180) (Fin 0) = Fin (6371000 * pi)"
  by (simp add: haversineMeters_Fin havA_antipode)

lemma far_shelter_outside: "\<not> jle (Fin (6371000 * pi)) (Fin 1500)"
proof -
  have "1500 < 6371000 * (2::real)" by simp
  also have "\<dots> \<le> 6371000 * pi" using pi_ge_two by simp
  finally show ?thesis by simp
qed

lemma far_shelter_result:
  "r_shelters (scorePoint farShelter
      \<lparr>sp_lon = Fin 0, sp_lat = Fin 0, sp_radiusMeters = None, sp_topN = None\<rparr>)
     = \<lparr>cat_count = 0, nearest = None\<rparr>"
  using far_shelter_outside
  by (simp add: scorePoint_shelters radiusOf_def topNOf_def nearCategory_def farShelter_def
      poiAt_def withDistances_def sortByDistance_single withinRadius_def far_shelter_distance
      truncInt_def summary_def)

















lemma inRange_finiteCoords: "inRange p \<Longrightarrow> finiteCoords p"
  by (cases "lon p"; cases "lat p") (simp_all add: inRange_def finiteCoords_def)









lemma three_in_radius:
  "length (filter (inRadius (Fin 0) (Fin 0) (Fin 1500)) (shelter threeShelters)) = 3"
  by (simp add: threeShelters_def inRadius_self)

lemma three_shelters_list:
  "withinRadius (sortByDistance (withDistances Shelter (shelter threeShelters) (Fin 0) (Fin 0)))
      (Fin 1500) = withDistances Shelter (shelter threeShelters) (Fin 0) (Fin 0)"
  by (simp add: threeShelters_def poiAt_def withDistances_def haversineMeters_self
      sortByDistance_def comesAfter_def jsub_def withinRadius_def)

lemma three_shelters_count:
  "cat_count (r_shelters (scorePoint threeShelters
      \<lparr>sp_lon = Fin 0, sp_lat = Fin 0, sp_radiusMeters = None, sp_topN = Some (Fin t)\<rparr>))
     = length (slice0 (withDistances Shelter (shelter threeShelters) (Fin 0) (Fin 0)) (Fin t))"
  by (simp only: scorePoint_shelters summary_def nearCategory_def radiusOf_def topNOf_def
      three_shelters_list CatSummary.simps ScoreParams.simps option.case)

section \<open>The claims\<close>

text \<open>
  C10, amended. With a cap \<^verbatim>\<open>topN\<close> that is a natural number \<open>n\<close> (the default is 25),
  \<^verbatim>\<open>scorePoint\<close> reports for each category the count
  \<open>min (number of catalog points within the radius) n\<close>, not the number within the
  radius; the count sub-score is therefore at most \<open>n / (n + 4)\<close>; and \<^verbatim>\<open>nearest\<close>
  is the head of the in-radius list cut to \<open>n\<close> elements, \<^verbatim>\<open>null\<close> when that list is
  empty.
\<close>

theorem scorePoint_caps_at_topN:
  fixes n :: nat
  assumes "topNOf ps = Fin (real n)"
  shows "cat_count (r_shelters (scorePoint L ps))
           = min (length (filter (inRadius (sp_lon ps) (sp_lat ps) (radiusOf ps)) (shelter L))) n
       \<and> cat_count (r_schools (scorePoint L ps))
           = min (length (filter (inRadius (sp_lon ps) (sp_lat ps) (radiusOf ps)) (school L))) n
       \<and> cat_count (r_healths (scorePoint L ps))
           = min (length (filter (inRadius (sp_lon ps) (sp_lat ps) (radiusOf ps)) (health L))) n
       \<and> jle (countNorm (cat_count (r_shelters (scorePoint L ps)))) (Fin (real n / (real n + 4)))
       \<and> jle (countNorm (cat_count (r_schools (scorePoint L ps)))) (Fin (real n / (real n + 4)))
       \<and> jle (countNorm (cat_count (r_healths (scorePoint L ps)))) (Fin (real n / (real n + 4)))
       \<and> nearest (r_shelters (scorePoint L ps))
           = (case take n (withinRadius (sortByDistance
                 (withDistances Shelter (shelter L) (sp_lon ps) (sp_lat ps))) (radiusOf ps)) of
                [] \<Rightarrow> None | p # rest \<Rightarrow> Some p)
       \<and> nearest (r_schools (scorePoint L ps))
           = (case take n (withinRadius (sortByDistance
                 (withDistances School (school L) (sp_lon ps) (sp_lat ps))) (radiusOf ps)) of
                [] \<Rightarrow> None | p # rest \<Rightarrow> Some p)
       \<and> nearest (r_healths (scorePoint L ps))
           = (case take n (withinRadius (sortByDistance
                 (withDistances Health (health L) (sp_lon ps) (sp_lat ps))) (radiusOf ps)) of
                [] \<Rightarrow> None | p # rest \<Rightarrow> Some p)"
  unfolding scorePoint_shelters scorePoint_schools scorePoint_healths assms
  using summary_capped by blast

theorem scorePoint_caps_at_topN_witness:
  "topNOf \<lparr>sp_lon = Fin 0, sp_lat = Fin 0, sp_radiusMeters = None, sp_topN = Some (Fin 1)\<rparr> = Fin (real 1)
   \<and> length (filter (inRadius (Fin 0) (Fin 0) (Fin 1500)) (shelter twoShelters)) = 2
   \<and> cat_count (r_shelters (scorePoint twoShelters
        \<lparr>sp_lon = Fin 0, sp_lat = Fin 0, sp_radiusMeters = None, sp_topN = Some (Fin 1)\<rparr>)) = 1"
proof -
  let ?ps = "\<lparr>sp_lon = Fin 0, sp_lat = Fin 0, sp_radiusMeters = None, sp_topN = Some (Fin 1)\<rparr>"
  have t: "topNOf ?ps = Fin (real 1)" by (simp add: topNOf_def)
  have l: "length (filter (inRadius (Fin 0) (Fin 0) (Fin 1500)) (shelter twoShelters)) = 2"
    by (simp add: twoShelters_def inRadius_self)
  have r: "radiusOf ?ps = Fin 1500" by (simp add: radiusOf_def)
  from scorePoint_caps_at_topN [OF t, of twoShelters]
  have "cat_count (r_shelters (scorePoint twoShelters ?ps))
           = min (length (filter (inRadius (sp_lon ?ps) (sp_lat ?ps) (radiusOf ?ps)) (shelter twoShelters))) 1"
    by blast
  then have "cat_count (r_shelters (scorePoint twoShelters ?ps)) = 1"
    using l by (simp add: r)
  then show ?thesis using t l by blast
qed

text \<open>C10 as stated fails for a \<^verbatim>\<open>topN\<close> that is not a count: with three shelters within the
  radius, \<^verbatim>\<open>topN = -1\<close> and \<^verbatim>\<open>topN = 2.5\<close> both give the count 2, which is not
  \<open>min 3 topN\<close>, and at \<^verbatim>\<open>topN = -1\<close> the count sub-score exceeds \<open>topN / (topN + K)\<close>.\<close>

theorem topN_not_a_count:
  "length (filter (inRadius (Fin 0) (Fin 0) (Fin 1500)) (shelter threeShelters)) = 3
   \<and> cat_count (r_shelters (scorePoint threeShelters
        \<lparr>sp_lon = Fin 0, sp_lat = Fin 0, sp_radiusMeters = None, sp_topN = Some (Fin (- 1))\<rparr>)) = 2
   \<and> Fin (real 2) \<noteq> jmin (Fin (real 3)) (Fin (- 1))
   \<and> \<not> jle (countNorm 2) (jdiv (Fin (- 1)) (jadd (Fin (- 1)) (Fin COUNT_SAT_K)))
   \<and> cat_count (r_shelters (scorePoint threeShelters
        \<lparr>sp_lon = Fin 0, sp_lat = Fin 0, sp_radiusMeters = None, sp_topN = Some (Fin 2.5)\<rparr>)) = 2
   \<and> Fin (real 2) \<noteq> jmin (Fin (real 3)) (Fin 2.5)"
proof -
  have l: "length (withDistances Shelter (shelter threeShelters) (Fin 0) (Fin 0)) = 3"
    by (simp add: withDistances_def threeShelters_def)
  have "\<lceil>- 1 :: real\<rceil> = - 1" by linarith
  then have t1: "truncInt (- 1) = - 1" by (simp add: truncInt_def)
  have "\<lfloor>5 / 2 :: real\<rfloor> = 2" by linarith
  then have t2: "truncInt (5 / 2) = 2" by (simp add: truncInt_def)
  have 1: "cat_count (r_shelters (scorePoint threeShelters
        \<lparr>sp_lon = Fin 0, sp_lat = Fin 0, sp_radiusMeters = None, sp_topN = Some (Fin (- 1))\<rparr>)) = 2"
    by (simp add: three_shelters_count l t1)
  have 2: "cat_count (r_shelters (scorePoint threeShelters
        \<lparr>sp_lon = Fin 0, sp_lat = Fin 0, sp_radiusMeters = None, sp_topN = Some (Fin 2.5)\<rparr>)) = 2"
    by (simp add: three_shelters_count l t2)
  have 3: "Fin (real 2) \<noteq> jmin (Fin (real 3)) (Fin (- 1))" by simp
  have 4: "\<not> jle (countNorm 2) (jdiv (Fin (- 1)) (jadd (Fin (- 1)) (Fin COUNT_SAT_K)))"
    by (simp add: countNorm_Fin COUNT_SAT_K_def)
  have 5: "Fin (real 2) \<noteq> jmin (Fin (real 3)) (Fin 2.5)" by simp
  show ?thesis using three_in_radius 1 2 3 4 5 by blast
qed

text \<open>
  C5. The count sub-score is 0 at count 0. For a weight that is not negative, a larger
  count never gives a smaller category score at the same nearest distance, and a larger
  nearest distance never gives a larger proximity sub-score (distances are not
  negative). Both hold as "not less" for every radius, and as \<open>\<le>\<close> whenever the
  proximity sub-score is a number (it is \<open>NaN\<close> only for a \<open>NaN\<close> radius or at
  distance 0 with radius 0).
\<close>

theorem category_score_monotone:
  assumes "0 \<le> w" and "n1 \<le> n2" and "jle (Fin 0) d1" and "jle d1 d2"
  shows "countNorm 0 = Fin 0
       \<and> \<not> jlt (categoryScore w r n2 d) (categoryScore w r n1 d)
       \<and> (prox r d \<noteq> NaN \<longrightarrow> jle (categoryScore w r n1 d) (categoryScore w r n2 d))
       \<and> \<not> jlt (prox r d1) (prox r d2)
       \<and> (prox r d1 \<noteq> NaN \<longrightarrow> jle (prox r d2) (prox r d1))"
  using assms categoryScore_mono_weak categoryScore_mono prox_antimono_weak prox_antimono
  by (simp add: countNorm_Fin)

theorem category_score_monotone_witness:
  "(0::real) \<le> 0.6 \<and> (1::nat) \<le> 2 \<and> jle (Fin 0) (Fin 0) \<and> jle (Fin 0) (Fin 1500)
   \<and> prox (Fin 1500) (Fin 0) = Fin 1
   \<and> prox (Fin 1500) (Fin 1500) = Fin 0
   \<and> jle (categoryScore 0.6 (Fin 1500) 1 (Fin 0)) (categoryScore 0.6 (Fin 1500) 2 (Fin 0))
   \<and> jle (prox (Fin 1500) (Fin 1500)) (prox (Fin 1500) (Fin 0))"
proof -
  have p: "prox (Fin 1500) (Fin 0) = Fin 1" "prox (Fin 1500) (Fin 1500) = Fin 0"
    by (simp_all add: prox_Fin_Fin proxR_def)
  have h: "(0::real) \<le> 0.6" "(1::nat) \<le> 2" "jle (Fin 0) (Fin 0)" "jle (Fin 0) (Fin 1500)"
    by simp_all
  from category_score_monotone [OF h, of "Fin 1500" "Fin 0"] p
  have "jle (categoryScore 0.6 (Fin 1500) 1 (Fin 0)) (categoryScore 0.6 (Fin 1500) 2 (Fin 0))"
    and "jle (prox (Fin 1500) (Fin 1500)) (prox (Fin 1500) (Fin 0))"
    by simp_all
  then show ?thesis using p h by simp
qed

text \<open>
  C4. The input on which the score leaves \<open>[0, 1]\<close>: a radius of 0 and a catalog point at
  the origin itself. The point is within the radius (\<open>0 <= 0\<close>), \<^verbatim>\<open>prox\<close> divides 0 by 0,
  and neither \<^verbatim>\<open>clamp01\<close> turns the \<open>NaN\<close> into a number.
\<close>

theorem zero_radius_gives_NaN:
  "score (scorePoint shelterAtOrigin
      \<lparr>sp_lon = Fin 0, sp_lat = Fin 0, sp_radiusMeters = Some (Fin 0), sp_topN = None\<rparr>) = NaN"
  by (simp add: scorePoint_def nearbyPois_def nearCategory_def shelterAtOrigin_def poiAt_def
      withDistances_def sortByDistance_single withinRadius_def haversineMeters_self truncInt_def
      summary_def nearestDistance_def categoryScore_def prox_Fin_Fin clamp01_def Let_def
      countNorm_Fin prox_not_finite)

text \<open>
  C3, amended. The weights of the scoring engine of \<^verbatim>\<open>poi-index.ts\<close> are shelter 0.6,
  school 0.25 and health 0.15; they sum to 1 and every \<^verbatim>\<open>ScoreResult\<close> reports them in
  \<^verbatim>\<open>params.weights\<close>. The older \<^verbatim>\<open>score.ts\<close> uses and reports 0.5, 0.3 and 0.2.
\<close>

theorem reported_weights:
  "rp_weights (r_params (scorePoint L ps)) = \<lparr>w_shelter = 0.6, w_school = 0.25, w_health = 0.15\<rparr>
   \<and> w_shelter WEIGHTS + w_school WEIGHTS + w_health WEIGHTS = 1
   \<and> ts_weights (scorePoint_score_ts L lon0 lat0 radiusOpt)
       = \<lparr>t_shelters = 0.5, t_schools = 0.3, t_healths = 0.2\<rparr>"
  by (simp add: scorePoint_def scorePoint_score_ts_def Let_def WEIGHTS_def)

text \<open>C3 as stated fails: the weights a result of \<^verbatim>\<open>poi-index.ts\<close> reports are not
  0.5, 0.3 and 0.2.\<close>

theorem reported_weights_differ:
  "rp_weights (r_params (scorePoint shelterAtOrigin
      \<lparr>sp_lon = Fin 0, sp_lat = Fin 0, sp_radiusMeters = None, sp_topN = None\<rparr>))
     \<noteq> \<lparr>w_shelter = 0.5, w_school = 0.3, w_health = 0.2\<rparr>"
  by (simp add: scorePoint_def Let_def WEIGHTS_def)






text \<open>
  C7, amended. \<^verbatim>\<open>withinRadius\<close> keeps exactly the points whose distance is \<open>\<le>\<close> the
  radius: a point at exactly the radius is kept, a point strictly farther is dropped. A
  negative radius gives empty lists in \<^verbatim>\<open>nearbyPois\<close>; a radius of 0 gives the points at
  distance 0.
\<close>

theorem withinRadius_boundary:
  "(p \<in> set (withinRadius xs r)) = (p \<in> set xs \<and> jle (distance_m p) r)
   \<and> (p \<in> set xs \<and> distance_m p = Fin d \<longrightarrow> p \<in> set (withinRadius xs (Fin d)))
   \<and> (jlt r (distance_m p) \<longrightarrow> p \<notin> set (withinRadius xs r))
   \<and> (jlt r (Fin 0) \<longrightarrow>
         withinRadius (sortByDistance (withDistances k arr lon0 lat0)) r = []
         \<and> shelters (nearbyPois L lon0 lat0 r n) = []
         \<and> schools (nearbyPois L lon0 lat0 r n) = []
         \<and> healths (nearbyPois L lon0 lat0 r n) = []
         \<and> allNear (nearbyPois L lon0 lat0 r n) = [])
   \<and> (q \<in> set (shelters (nearbyPois L lon0 lat0 (Fin 0) n))
          \<union> set (schools (nearbyPois L lon0 lat0 (Fin 0) n))
          \<union> set (healths (nearbyPois L lon0 lat0 (Fin 0) n)) \<longrightarrow> distance_m q = Fin 0)"
proof -
  have 1: "(p \<in> set (withinRadius xs r)) = (p \<in> set xs \<and> jle (distance_m p) r)"
    by (rule withinRadius_mem)
  have 2: "p \<in> set xs \<and> distance_m p = Fin d \<longrightarrow> p \<in> set (withinRadius xs (Fin d))"
    by (simp add: withinRadius_mem)
  have 3: "jlt r (distance_m p) \<longrightarrow> p \<notin> set (withinRadius xs r)"
    using jlt_not_jle by (auto simp: withinRadius_mem)
  have 4: "jlt r (Fin 0) \<longrightarrow>
         withinRadius (sortByDistance (withDistances k arr lon0 lat0)) r = []
         \<and> shelters (nearbyPois L lon0 lat0 r n) = []
         \<and> schools (nearbyPois L lon0 lat0 r n) = []
         \<and> healths (nearbyPois L lon0 lat0 r n) = []
         \<and> allNear (nearbyPois L lon0 lat0 r n) = []"
  proof
    assume neg: "jlt r (Fin 0)"
    have "withinRadius (sortByDistance (withDistances k arr lon0 lat0)) r = []"
      using jle_neg_radius [OF neg] by (intro withinRadius_empty)
    moreover have "nearbyPois L lon0 lat0 r n =
       \<lparr>shelters = [], schools = [], healths = [], allNear = [],
        params = \<lparr>q_lon = lon0, q_lat = lat0, q_radiusMeters = r, q_topN = n\<rparr>\<rparr>"
      using neg by (intro nearbyPois_invalid) simp
    ultimately show "withinRadius (sortByDistance (withDistances k arr lon0 lat0)) r = []
         \<and> shelters (nearbyPois L lon0 lat0 r n) = []
         \<and> schools (nearbyPois L lon0 lat0 r n) = []
         \<and> healths (nearbyPois L lon0 lat0 r n) = []
         \<and> allNear (nearbyPois L lon0 lat0 r n) = []" by simp
  qed
  have 5: "q \<in> set (shelters (nearbyPois L lon0 lat0 (Fin 0) n))
          \<union> set (schools (nearbyPois L lon0 lat0 (Fin 0) n))
          \<union> set (healths (nearbyPois L lon0 lat0 (Fin 0) n)) \<longrightarrow> distance_m q = Fin 0"
    using nearCategory_zero_radius by (auto simp: nearbyPois_def Let_def)
  show ?thesis using 1 2 3 4 5 by blast
qed

theorem withinRadius_boundary_witness:
  "jlt (Fin (- 1)) (Fin 0)
   \<and> shelters (nearbyPois shelterAtOrigin (Fin 0) (Fin 0) (Fin (- 1)) (Fin 25)) = []
   \<and> allNear (nearbyPois shelterAtOrigin (Fin 0) (Fin 0) (Fin (- 1)) (Fin 25)) = []"
proof -
  have h: "jlt (Fin (- 1)) (Fin 0)" by simp
  from withinRadius_boundary [of _ _ "Fin (- 1)" _ _ _ "Fin 0" "Fin 0" shelterAtOrigin "Fin 25"] h
  show ?thesis by blast
qed

text \<open>C7 as stated fails at radius 0: a catalog point at the origin is returned.\<close>

theorem zero_radius_not_empty:
  "shelters (nearbyPois shelterAtOrigin (Fin 0) (Fin 0) (Fin 0) (Fin 25)) \<noteq> []"
  by (simp add: nearby_zero_radius)

text \<open>
  C2, amended. \<^verbatim>\<open>scorePoint\<close> and \<^verbatim>\<open>nearbyPois\<close> validate nothing and raise nothing. For
  an origin with a longitude or latitude that is not finite, or a negative radius, they
  return the result with three empty categories (count 0, \<^verbatim>\<open>nearest\<close> null) and score 0.
\<close>

theorem queries_do_not_validate:
  assumes "\<not> isFinite (sp_lon ps) \<or> \<not> isFinite (sp_lat ps) \<or> jlt (radiusOf ps) (Fin 0)"
  shows "scorePoint L ps =
     \<lparr>r_shelters = \<lparr>cat_count = 0, nearest = None\<rparr>,
      r_schools = \<lparr>cat_count = 0, nearest = None\<rparr>,
      r_healths = \<lparr>cat_count = 0, nearest = None\<rparr>,
      score = Fin 0,
      r_params = \<lparr>rp_lon = sp_lon ps, rp_lat = sp_lat ps, rp_radiusMeters = radiusOf ps,
                  rp_weights = WEIGHTS, rp_topN = topNOf ps\<rparr>\<rparr>
   \<and> nearbyPois L (sp_lon ps) (sp_lat ps) (radiusOf ps) n =
     \<lparr>shelters = [], schools = [], healths = [], allNear = [],
      params = \<lparr>q_lon = sp_lon ps, q_lat = sp_lat ps, q_radiusMeters = radiusOf ps, q_topN = n\<rparr>\<rparr>"
  using scorePoint_invalid [OF assms] nearbyPois_invalid [OF assms] by simp

theorem queries_do_not_validate_witness:
  "\<not> isFinite NaN
   \<and> score (scorePoint shelterAtOrigin
        \<lparr>sp_lon = NaN, sp_lat = Fin 0, sp_radiusMeters = None, sp_topN = None\<rparr>) = Fin 0
   \<and> r_shelters (scorePoint shelterAtOrigin
        \<lparr>sp_lon = NaN, sp_lat = Fin 0, sp_radiusMeters = None, sp_topN = None\<rparr>)
       = \<lparr>cat_count = 0, nearest = None\<rparr>
   \<and> shelters (nearbyPois shelterAtOrigin NaN (Fin 0) (Fin 1500) (Fin 25)) = []"
proof -
  let ?ps = "\<lparr>sp_lon = NaN, sp_lat = Fin 0, sp_radiusMeters = None, sp_topN = None\<rparr>"
  have h: "\<not> isFinite (sp_lon ?ps) \<or> \<not> isFinite (sp_lat ?ps) \<or> jlt (radiusOf ?ps) (Fin 0)"
    by simp
  have r: "radiusOf ?ps = Fin 1500" by (simp add: radiusOf_def)
  from queries_do_not_validate [OF h, of shelterAtOrigin "Fin 25"]
  show ?thesis by (simp add: r)
qed

text \<open>C2 as stated fails: the origin at longitude 360 is out of range, and it is scored
  as longitude 0 is.\<close>

theorem out_of_range_origin_is_scored:
  "\<not> validQuery (Fin 360) (Fin 0) (Fin 1500)
   \<and> cat_count (r_shelters (scorePoint shelterAtOrigin
        \<lparr>sp_lon = Fin 360, sp_lat = Fin 0, sp_radiusMeters = None, sp_topN = None\<rparr>)) = 1
   \<and> score (scorePoint shelterAtOrigin
        \<lparr>sp_lon = Fin 360, sp_lat = Fin 0, sp_radiusMeters = None, sp_topN = None\<rparr>) = Fin 0.216"
  by (simp add: score_at_lon_360 validQuery_def)

text \<open>
  C1, amended. For a positive finite radius, a cap \<^verbatim>\<open>topN\<close> of at least 1, an origin in
  range and a catalog whose points are all in range (the loader does not see to that),
  the proximity sub-score \<^verbatim>\<open>scorePoint\<close> uses for a category is \<^verbatim>\<open>prox\<close> of the distance
  to the nearest point of that category in the whole catalog (\<open>Infinity\<close> for an empty
  category). \<^verbatim>\<open>prox\<close> takes values in \<open>[0, 1]\<close>, never increases with the distance, and
  is 0 exactly when that distance is at least the radius: for an empty category, and
  also for a category whose nearest point is at or beyond the radius.
\<close>

theorem proximity_sub_score:
  assumes "0 < r" and "0 < n"
    and "radiusOf ps = Fin r" and "topNOf ps = Fin (real n)"
    and "sp_lon ps = Fin x" and "sp_lat ps = Fin y"
    and "validQuery (sp_lon ps) (sp_lat ps) (radiusOf ps)"
    and "\<forall>p\<in>set (shelter L) \<union> set (school L) \<union> set (health L). inRange p"
  shows "prox (radiusOf ps) (nearestDistance (r_shelters (scorePoint L ps)))
           = prox (Fin r) (nearestInCatalog (shelter L) (Fin x) (Fin y))
       \<and> prox (radiusOf ps) (nearestDistance (r_schools (scorePoint L ps)))
           = prox (Fin r) (nearestInCatalog (school L) (Fin x) (Fin y))
       \<and> prox (radiusOf ps) (nearestDistance (r_healths (scorePoint L ps)))
           = prox (Fin r) (nearestInCatalog (health L) (Fin x) (Fin y))
       \<and> (\<exists>v. prox (Fin r) d = Fin v \<and> 0 \<le> v \<and> v \<le> 1)
       \<and> (jle (Fin 0) d1 \<and> jle d1 d2 \<longrightarrow> jle (prox (Fin r) d2) (prox (Fin r) d1))
       \<and> (prox (Fin r) (nearestInCatalog (shelter L) (Fin x) (Fin y)) = Fin 0)
           = jle (Fin r) (nearestInCatalog (shelter L) (Fin x) (Fin y))
       \<and> (prox (Fin r) (nearestInCatalog (school L) (Fin x) (Fin y)) = Fin 0)
           = jle (Fin r) (nearestInCatalog (school L) (Fin x) (Fin y))
       \<and> (prox (Fin r) (nearestInCatalog (health L) (Fin x) (Fin y)) = Fin 0)
           = jle (Fin r) (nearestInCatalog (health L) (Fin x) (Fin y))
       \<and> nearestInCatalog [] (Fin x) (Fin y) = PInf"
proof -
  have f: "\<forall>p\<in>set (shelter L). finiteCoords p" "\<forall>p\<in>set (school L). finiteCoords p"
    "\<forall>p\<in>set (health L). finiteCoords p"
    using assms(8) inRange_finiteCoords by auto
  have 1: "prox (radiusOf ps) (nearestDistance (r_shelters (scorePoint L ps)))
           = prox (Fin r) (nearestInCatalog (shelter L) (Fin x) (Fin y))"
    unfolding scorePoint_shelters assms(3,4,5,6) using assms(1,2) f(1) by (rule prox_category)
  have 2: "prox (radiusOf ps) (nearestDistance (r_schools (scorePoint L ps)))
           = prox (Fin r) (nearestInCatalog (school L) (Fin x) (Fin y))"
    unfolding scorePoint_schools assms(3,4,5,6) using assms(1,2) f(2) by (rule prox_category)
  have 3: "prox (radiusOf ps) (nearestDistance (r_healths (scorePoint L ps)))
           = prox (Fin r) (nearestInCatalog (health L) (Fin x) (Fin y))"
    unfolding scorePoint_healths assms(3,4,5,6) using assms(1,2) f(3) by (rule prox_category)
  have 4: "\<exists>v. prox (Fin r) d = Fin v \<and> 0 \<le> v \<and> v \<le> 1"
    using assms(1) by (rule prox_positive_radius)
  have 5: "jle (Fin 0) d1 \<and> jle d1 d2 \<longrightarrow> jle (prox (Fin r) d2) (prox (Fin r) d1)"
    using prox_antimono_positive [OF assms(1)] by blast
  have 6: "nearestInCatalog [] (Fin x) (Fin y) = PInf" by (simp add: nearestInCatalog_def)
  show ?thesis
    using 1 2 3 4 5 6 prox_zero_iff_catalog [OF assms(1) f(1)]
      prox_zero_iff_catalog [OF assms(1) f(2)] prox_zero_iff_catalog [OF assms(1) f(3)]
    by simp
qed

theorem proximity_sub_score_witness:
  "(0::real) < 1500 \<and> (0::nat) < 25
   \<and> validQuery (Fin 0) (Fin 0) (Fin 1500) \<and> inRange (poiAt ''S'' 0 0)
   \<and> prox (Fin 1500) (nearestDistance (r_shelters (scorePoint shelterAtOrigin
        \<lparr>sp_lon = Fin 0, sp_lat = Fin 0, sp_radiusMeters = None, sp_topN = None\<rparr>)))
       = prox (Fin 1500) (nearestInCatalog (shelter shelterAtOrigin) (Fin 0) (Fin 0))
   \<and> nearestInCatalog (shelter shelterAtOrigin) (Fin 0) (Fin 0) = Fin 0
   \<and> prox (Fin 1500) (Fin 0) = Fin 1"
proof -
  let ?ps = "\<lparr>sp_lon = Fin 0, sp_lat = Fin 0, sp_radiusMeters = None, sp_topN = None\<rparr>"
  have h: "(0::real) < 1500" "(0::nat) < 25" "radiusOf ?ps = Fin 1500" "topNOf ?ps = Fin (real 25)"
    "sp_lon ?ps = Fin 0" "sp_lat ?ps = Fin 0"
    "validQuery (sp_lon ?ps) (sp_lat ?ps) (radiusOf ?ps)"
    "\<forall>p\<in>set (shelter shelterAtOrigin) \<union> set (school shelterAtOrigin)
        \<union> set (health shelterAtOrigin). inRange p"
    by (simp_all add: radiusOf_def topNOf_def shelterAtOrigin_def poiAt_def inRange_def
        validQuery_def)
  have n: "nearestInCatalog (shelter shelterAtOrigin) (Fin 0) (Fin 0) = Fin 0"
    by (simp add: nearestInCatalog_def shelterAtOrigin_def poiAt_def haversineMeters_self)
  have p: "prox (Fin 1500) (Fin 0) = Fin 1" by (simp add: prox_Fin_Fin proxR_def)
  from proximity_sub_score [OF h]
  have "prox (radiusOf ?ps) (nearestDistance (r_shelters (scorePoint shelterAtOrigin ?ps)))
       = prox (Fin 1500) (nearestInCatalog (shelter shelterAtOrigin) (Fin 0) (Fin 0))"
    by blast
  moreover have "validQuery (Fin 0) (Fin 0) (Fin 1500)" "inRange (poiAt ''S'' 0 0)"
    by (simp_all add: validQuery_def inRange_def poiAt_def)
  ultimately show ?thesis using h(1,2) n p by (simp add: h(3))
qed

text \<open>C1 as stated fails: the shelter category holds a point, at half the circumference
  from the origin, and its proximity sub-score is 0.\<close>

theorem proximity_zero_with_points:
  "shelter farShelter \<noteq> [] \<and> inRange (poiAt ''F'' 180 0)
   \<and> validQuery (Fin 0) (Fin 0) (Fin 1500)
   \<and> nearestInCatalog (shelter farShelter) (Fin 0) (Fin 0) = Fin (6371000 * pi)
   \<and> prox (Fin 1500) (nearestDistance (r_shelters (scorePoint farShelter
        \<lparr>sp_lon = Fin 0, sp_lat = Fin 0, sp_radiusMeters = None, sp_topN = None\<rparr>))) = Fin 0"
proof -
  have 1: "shelter farShelter \<noteq> []" by (simp add: farShelter_def)
  have 2: "nearestInCatalog (shelter farShelter) (Fin 0) (Fin 0) = Fin (6371000 * pi)"
    by (simp add: farShelter_def nearestInCatalog_def poiAt_def far_shelter_distance)
  have 3: "prox (Fin 1500) (nearestDistance (r_shelters (scorePoint farShelter
        \<lparr>sp_lon = Fin 0, sp_lat = Fin 0, sp_radiusMeters = None, sp_topN = None\<rparr>))) = Fin 0"
    by (simp add: far_shelter_result nearestDistance_def prox_not_finite)
  have 4: "inRange (poiAt ''F'' 180 0)" "validQuery (Fin 0) (Fin 0) (Fin 1500)"
    by (simp_all add: validQuery_def inRange_def poiAt_def)
  show ?thesis using 1 2 3 4 by blast
qed

end
